theory Spec2Isabelle
  imports Complex_Main
begin

section \<open>Fingering placement and layout (libmscore/fingering.cpp)\<close>

text \<open>
  A shallow embedding of \<^verbatim>\<open>Fingering::layoutType\<close>, \<^verbatim>\<open>Fingering::calculatePlacement\<close>
  and \<^verbatim>\<open>Fingering::layout\<close>. The C++ type \<^verbatim>\<open>qreal\<close> is read as \<^typ>\<open>real\<close>: the rounding
  of double arithmetic is not part of the model. C++ \<^verbatim>\<open>int\<close> is read as \<^typ>\<open>int\<close>; the only
  arithmetic on it, \<^verbatim>\<open>nstaves - 1\<close>, is guarded by \<^verbatim>\<open>nstaves > 1\<close> and cannot wrap.
\<close>

subsection \<open>Geometry\<close>

record PointF =
  px :: real
  py :: real

record RectF =
  rect_x :: real
  rect_y :: real
  rect_w :: real
  rect_h :: real

definition PointF_add :: "PointF \<Rightarrow> PointF \<Rightarrow> PointF" where
  "PointF_add a b = \<lparr>px = px a + px b, py = py a + py b\<rparr>"

text \<open>\<^verbatim>\<open>RectF()\<close>, the default (empty) rectangle.\<close>

definition RectF_null :: RectF where
  "RectF_null = \<lparr>rect_x = 0, rect_y = 0, rect_w = 0, rect_h = 0\<rparr>"

definition rect_top :: "RectF \<Rightarrow> real" where
  "rect_top r = rect_y r"

definition rect_bottom :: "RectF \<Rightarrow> real" where
  "rect_bottom r = rect_y r + rect_h r"

definition rect_width :: "RectF \<Rightarrow> real" where
  "rect_width r = rect_w r"

definition rect_height :: "RectF \<Rightarrow> real" where
  "rect_height r = rect_h r"

definition translated :: "RectF \<Rightarrow> PointF \<Rightarrow> RectF" where
  "translated r p = r\<lparr>rect_x := rect_x r + px p, rect_y := rect_y r + py p\<rparr>"

subsection \<open>Enumerations\<close>

datatype PlacementV = ABOVE | BELOW

text \<open>
  Only four enumerators of \<^verbatim>\<open>TextStyleType\<close> are named in fingering.cpp;
  \<open>OTHER_TEXT_STYLE\<close> stands for every remaining one.
\<close>

datatype TextStyleType =
  FINGERING | LH_GUITAR_FINGERING | RH_GUITAR_FINGERING | STRING_NUMBER | OTHER_TEXT_STYLE

datatype ElementType = CHORD | NOTE

datatype OffsetChange = RELATIVE_OFFSET | NONE | ABSOLUTE_OFFSET

type_synonym Fraction = rat

subsection \<open>Skyline\<close>

text \<open>
  The class \<^verbatim>\<open>SkylineLine\<close> is declared in skyline.h, which is not among the sources.
  A line carries its \<^verbatim>\<open>north\<close> flag and its segments \<open>(x, y, w)\<close>; its member functions
  \<^verbatim>\<open>add\<close> and \<^verbatim>\<open>minDistance\<close> are parameters of the model (see \<open>Env\<close> below).
\<close>

record SkylineLine =
  sl_north :: bool
  sl_seg :: "(real \<times> real \<times> real) list"

text \<open>The constructor \<^verbatim>\<open>SkylineLine sk(n)\<close>: an empty line.\<close>

definition SkylineLine_new :: "bool \<Rightarrow> SkylineLine" where
  "SkylineLine_new n = \<lparr>sl_north = n, sl_seg = []\<rparr>"

record Skyline =
  north :: SkylineLine
  south :: SkylineLine

subsection \<open>The score objects that a fingering reads\<close>

text \<open>
  Pointers that the code dereferences without any test anywhere (\<^verbatim>\<open>n->chord()\<close>,
  \<^verbatim>\<open>chord->staff()\<close>, \<^verbatim>\<open>staff->part()\<close>, \<^verbatim>\<open>chord->measure()\<close>, \<^verbatim>\<open>chord->segment()\<close>,
  \<^verbatim>\<open>m->system()\<close>, \<^verbatim>\<open>chord->upNote()\<close>, ...) are plain fields; pointers that the code tests
  (\<^verbatim>\<open>note()\<close>, \<^verbatim>\<open>staff()\<close>, \<^verbatim>\<open>chord->stem()\<close>) are options; \<^verbatim>\<open>chord->beam()\<close> is only
  ever tested, so it is a flag. Each field is one accessor of the C++ class.
\<close>

record Part =
  part_nstaves :: int

record Staff =
  staff_part :: Part
  staff_idx :: int
  staff_rstaff :: int
  staff_height :: real
  staff_isTabStaff :: "Fraction \<Rightarrow> bool"
  staff_showTabFingering :: "Fraction \<Rightarrow> bool"
    \<comment> \<open>\<^verbatim>\<open>st->staffType(tick)->showTabFingering()\<close>\<close>

text \<open>Position and bounding box of a stem or of a chord's extreme note.\<close>

record ItemGeometry =
  item_y :: real
  item_bbox :: RectF

record SysStaff =
  sysstaff_skyline :: Skyline

record System =
  system_staff :: "int \<Rightarrow> SysStaff"

record Measure =
  measure_hasVoices :: "int \<Rightarrow> Fraction \<Rightarrow> Fraction \<Rightarrow> bool"
  measure_pos :: PointF
  measure_system :: System

record Segment =
  segment_measure :: Measure
  segment_pos :: PointF

record Chord =
  chord_staff :: Staff
  chord_measure :: Measure
  chord_segment :: Segment
  chord_tick :: Fraction
  chord_actualTicks :: Fraction
  chord_up :: bool
  chord_notes_size :: nat
  chord_beam :: bool
  chord_stem :: "ItemGeometry option"
  chord_staffIdx :: int
  chord_vStaffIdx :: int
  chord_pos :: PointF
  chord_upNote :: ItemGeometry
  chord_downNote :: ItemGeometry

record Note =
  note_chord :: Chord
  note_tick :: Fraction
  note_bboxRightPos :: real
  note_mirror :: bool
  note_ipos :: PointF
  note_pos :: PointF
  note_x :: real
  note_y :: real
  note_shape_left :: real

subsection \<open>The fingering and the state of a layout call\<close>

record Fingering =
  textStyleType :: TextStyleType
  placement :: PlacementV
  minDistance :: real
  minDistanceStyled :: bool  \<comment> \<open>\<^verbatim>\<open>isStyled(Pid::MIN_DISTANCE)\<close>\<close>
  offset :: PointF
  offsetChanged :: OffsetChange
  autoplace :: bool
  ipos :: PointF  \<comment> \<open>\<^verbatim>\<open>rxpos()\<close> and \<^verbatim>\<open>rypos()\<close> refer to its coordinates\<close>
  bbox :: RectF
  spatium :: real

text \<open>
  The state of a call: the fingering, its parent (the anchor note, \<^verbatim>\<open>explicitParent()\<close>
  and \<^verbatim>\<open>note()\<close>; the constructor takes a \<^verbatim>\<open>Note*\<close> parent) and its staff (\<^verbatim>\<open>staff()\<close>).
  The Staff Skyline is reached from the parent note, as in the code:
  \<^verbatim>\<open>chord->segment()->measure()->system()->staff(chord->vStaffIdx())->skyline()\<close>.
\<close>

record LayoutState =
  fingering :: Fingering
  parent :: "Note option"
  staff :: "Staff option"

text \<open>\<^verbatim>\<open>Fingering::note()\<close>; the name \<open>note\<close> is reserved in Isabelle.\<close>

definition Fingering_note :: "LayoutState \<Rightarrow> Note option" where
  "Fingering_note sc = parent sc"

definition explicitParent :: "LayoutState \<Rightarrow> bool" where
  "explicitParent sc = (parent sc \<noteq> None)"

text \<open>
  \<^verbatim>\<open>chord->measure()->hasVoices(i, chord->tick(), chord->actualTicks())\<close>, the local
  \<^verbatim>\<open>voices\<close> of lines 96 and 122; the staff index \<open>i\<close> is \<^verbatim>\<open>staff->idx()\<close> in the former
  and \<^verbatim>\<open>chord->staffIdx()\<close> in the latter.
\<close>

definition hasVoicesAt :: "Chord \<Rightarrow> int \<Rightarrow> bool" where
  "hasVoicesAt chord i =
     measure_hasVoices (chord_measure chord) i (chord_tick chord) (chord_actualTicks chord)"

subsection \<open>layoutType (lines 70-80)\<close>

definition layoutType :: "Fingering \<Rightarrow> ElementType" where
  "layoutType f =
     (case textStyleType f of
        FINGERING \<Rightarrow> CHORD
      | RH_GUITAR_FINGERING \<Rightarrow> CHORD
      | STRING_NUMBER \<Rightarrow> CHORD
      | _ \<Rightarrow> NOTE)"

subsection \<open>calculatePlacement (lines 86-99)\<close>

definition calculatePlacement :: "LayoutState \<Rightarrow> PlacementV" where
  "calculatePlacement sc =
     (case Fingering_note sc of
        None \<Rightarrow> ABOVE
      | Some n \<Rightarrow>
          (let chord = note_chord n;
               staff = chord_staff chord;
               part = staff_part staff;
               nstaves = part_nstaves part;
               voices = hasVoicesAt chord (staff_idx staff);
               below = (if voices then \<not> chord_up chord
                        else (nstaves > 1) \<and> (staff_rstaff staff = nstaves - 1))
           in if below then BELOW else ABOVE))"

subsection \<open>Member functions of the base classes\<close>

text \<open>
  Modelled from the spec: \<^verbatim>\<open>pos()\<close>, \<^verbatim>\<open>height()\<close>, \<^verbatim>\<open>placeAbove()\<close> and the setters are
  members of \<^verbatim>\<open>EngravingItem\<close>, whose files are not among the sources. The offset is the
  "user-applied manual displacement vector", so \<^verbatim>\<open>pos()\<close> is the stored position displaced
  by it; \<^verbatim>\<open>height()\<close> is the height of the bounding box; the placement is "Above | Below";
  the offset-change kind "tracks whether the user has manually repositioned the element
  since last commit", so \<^verbatim>\<open>setOffsetChanged(false)\<close> sets it to \<^verbatim>\<open>NONE\<close> (the only call in
  fingering.cpp passes \<^verbatim>\<open>false\<close>); each remaining setter assigns its field.
\<close>

definition pos :: "Fingering \<Rightarrow> PointF" where
  "pos f = PointF_add (ipos f) (offset f)"

definition height :: "Fingering \<Rightarrow> real" where
  "height f = rect_height (bbox f)"

definition placeAbove :: "Fingering \<Rightarrow> bool" where
  "placeAbove f = (placement f = ABOVE)"

definition setbbox :: "RectF \<Rightarrow> LayoutState \<Rightarrow> LayoutState" where
  "setbbox r sc = sc\<lparr>fingering := (fingering sc)\<lparr>bbox := r\<rparr>\<rparr>"

definition setAutoplace :: "bool \<Rightarrow> LayoutState \<Rightarrow> LayoutState" where
  "setAutoplace v sc = sc\<lparr>fingering := (fingering sc)\<lparr>autoplace := v\<rparr>\<rparr>"

definition setOffsetChanged :: "bool \<Rightarrow> LayoutState \<Rightarrow> LayoutState" where
  "setOffsetChanged v sc =
     sc\<lparr>fingering := (fingering sc)\<lparr>offsetChanged := (if v then ABSOLUTE_OFFSET else NONE)\<rparr>\<rparr>"

text \<open>Assignments through the references \<^verbatim>\<open>rxpos()\<close> and \<^verbatim>\<open>rypos()\<close>.\<close>

definition rxpos_add :: "real \<Rightarrow> LayoutState \<Rightarrow> LayoutState" where
  "rxpos_add v sc =
     sc\<lparr>fingering := (fingering sc)\<lparr>ipos := (ipos (fingering sc))\<lparr>px := px (ipos (fingering sc)) + v\<rparr>\<rparr>\<rparr>"

definition rxpos_sub :: "real \<Rightarrow> LayoutState \<Rightarrow> LayoutState" where
  "rxpos_sub v sc =
     sc\<lparr>fingering := (fingering sc)\<lparr>ipos := (ipos (fingering sc))\<lparr>px := px (ipos (fingering sc)) - v\<rparr>\<rparr>\<rparr>"

definition rypos_add :: "real \<Rightarrow> LayoutState \<Rightarrow> LayoutState" where
  "rypos_add v sc =
     sc\<lparr>fingering := (fingering sc)\<lparr>ipos := (ipos (fingering sc))\<lparr>py := py (ipos (fingering sc)) + v\<rparr>\<rparr>\<rparr>"

definition rypos_sub :: "real \<Rightarrow> LayoutState \<Rightarrow> LayoutState" where
  "rypos_sub v sc =
     sc\<lparr>fingering := (fingering sc)\<lparr>ipos := (ipos (fingering sc))\<lparr>py := py (ipos (fingering sc)) - v\<rparr>\<rparr>\<rparr>"

definition rypos_set :: "real \<Rightarrow> LayoutState \<Rightarrow> LayoutState" where
  "rypos_set v sc =
     sc\<lparr>fingering := (fingering sc)\<lparr>ipos := (ipos (fingering sc))\<lparr>py := v\<rparr>\<rparr>\<rparr>"

subsection \<open>Collaborators taken as parameters\<close>

text \<open>
  The following member functions are called by \<^verbatim>\<open>Fingering::layout\<close> and defined in files
  that are not among the sources. They are parameters of the model; every theorem below
  holds for all of them, or states what it needs of them.
  \<^item> \<^verbatim>\<open>TextBase::layout()\<close>: reads the state and returns the updated fingering.
  \<^item> \<^verbatim>\<open>EngravingItem::rebaseOffset(bool nox = true)\<close>: returns a \<^verbatim>\<open>qreal\<close> and the updated
    fingering.
  \<^item> \<^verbatim>\<open>EngravingItem::rebaseMinDistance(qreal& md, qreal& yd, qreal sp, qreal rebase,
    bool above, bool fix)\<close>: returns the new values of the two reference arguments and the
    updated fingering.
  \<^item> \<^verbatim>\<open>SkylineLine::add(x, y, w)\<close> and \<^verbatim>\<open>SkylineLine::minDistance(const SkylineLine&) const\<close>.
  The three element members can update the fingering only; the score objects and the
  Staff Skyline are out of their reach.
\<close>

record Env =
  TextBase_layout :: "LayoutState \<Rightarrow> Fingering"
  rebaseOffset :: "bool \<Rightarrow> LayoutState \<Rightarrow> real \<times> Fingering"
  rebaseMinDistance ::
    "real \<Rightarrow> real \<Rightarrow> real \<Rightarrow> real \<Rightarrow> bool \<Rightarrow> bool \<Rightarrow> LayoutState \<Rightarrow> (real \<times> real) \<times> Fingering"
  SkylineLine_add :: "SkylineLine \<Rightarrow> real \<Rightarrow> real \<Rightarrow> real \<Rightarrow> SkylineLine"
  SkylineLine_minDistance :: "SkylineLine \<Rightarrow> SkylineLine \<Rightarrow> real"

definition call_TextBase_layout :: "Env \<Rightarrow> LayoutState \<Rightarrow> LayoutState" where
  "call_TextBase_layout env sc = sc\<lparr>fingering := TextBase_layout env sc\<rparr>"

definition call_rebaseOffset :: "Env \<Rightarrow> bool \<Rightarrow> LayoutState \<Rightarrow> real \<times> LayoutState" where
  "call_rebaseOffset env nox sc =
     (fst (rebaseOffset env nox sc), sc\<lparr>fingering := snd (rebaseOffset env nox sc)\<rparr>)"

definition call_rebaseMinDistance ::
    "Env \<Rightarrow> real \<Rightarrow> real \<Rightarrow> real \<Rightarrow> real \<Rightarrow> bool \<Rightarrow> bool \<Rightarrow> LayoutState \<Rightarrow> (real \<times> real) \<times> LayoutState" where
  "call_rebaseMinDistance env md yd sp rebase abv fix sc =
     (fst (rebaseMinDistance env md yd sp rebase abv fix sc),
      sc\<lparr>fingering := snd (rebaseMinDistance env md yd sp rebase abv fix sc)\<rparr>)"

subsection \<open>layout (lines 105-241)\<close>

text \<open>
  The only failure of the function: \<^verbatim>\<open>staff()->height()\<close> at lines 181 and 217 dereferences
  \<^verbatim>\<open>staff()\<close>, which line 110 treats as possibly null.
\<close>

datatype error = NullDereference

text \<open>The tests of lines 107-110 that guard the early return.\<close>

definition tabFingeringHidden :: "LayoutState \<Rightarrow> bool" where
  "tabFingeringHidden sc =
     (if explicitParent sc then
        (let tick = note_tick (the (parent sc));
             st = staff sc
         in st \<noteq> None \<and> staff_isTabStaff (the st) tick \<and> \<not> staff_showTabFingering (the st) tick)
      else False)"

text \<open>
  The expression of lines 181 and 217, the same text in both branches:
  \<^verbatim>\<open>above ? r.bottom() + rebase > 0.0 : r.top() + rebase < staff()->height()\<close>.
\<close>

definition inStaff :: "LayoutState \<Rightarrow> bool \<Rightarrow> RectF \<Rightarrow> real \<Rightarrow> error + bool" where
  "inStaff sc abv r rebase =
     (if abv then Inr (rect_bottom r + rebase > 0)
      else (case staff sc of
              None \<Rightarrow> Inl NullDereference
            | Some st \<Rightarrow> Inr (rect_top r + rebase < staff_height st)))"

text \<open>\<^verbatim>\<open>m->system()->staff(chord->vStaffIdx())\<close> with \<^verbatim>\<open>m = chord->segment()->measure()\<close>.\<close>

definition chord_sysStaff :: "Chord \<Rightarrow> SysStaff" where
  "chord_sysStaff chord =
     system_staff (measure_system (segment_measure (chord_segment chord))) (chord_vStaffIdx chord)"

text \<open>
  The rectangle \<^verbatim>\<open>r\<close> of lines 157 and 193:
  \<^verbatim>\<open>bbox().translated(m->pos() + s->pos() + chord->pos() + n->pos() + pos())\<close>.
\<close>

definition systemRect :: "LayoutState \<Rightarrow> Note \<Rightarrow> RectF" where
  "systemRect sc n =
     (let chord = note_chord n;
          s = chord_segment chord;
          m = segment_measure s
      in translated (bbox (fingering sc))
           (PointF_add (PointF_add (PointF_add (PointF_add (measure_pos m) (segment_pos s))
              (chord_pos chord)) (note_pos n)) (pos (fingering sc))))"

text \<open>
  Lines 157-160: the fingering's own profile, the lower edge of its box in system
  coordinates, and its distance to the north profile of the Staff Skyline.
\<close>

definition distanceAbove :: "Env \<Rightarrow> LayoutState \<Rightarrow> Note \<Rightarrow> real" where
  "distanceAbove env sc n =
     (let ss = chord_sysStaff (note_chord n);
          r = systemRect sc n;
          sk = SkylineLine_add env (SkylineLine_new False) (rect_x r) (rect_bottom r) (rect_width r)
      in SkylineLine_minDistance env sk (north (sysstaff_skyline ss)))"

text \<open>Lines 193-196: the upper edge of the box against the south profile.\<close>

definition distanceBelow :: "Env \<Rightarrow> LayoutState \<Rightarrow> Note \<Rightarrow> real" where
  "distanceBelow env sc n =
     (let ss = chord_sysStaff (note_chord n);
          r = systemRect sc n;
          sk = SkylineLine_add env (SkylineLine_new True) (rect_x r) (rect_top r) (rect_width r)
      in SkylineLine_minDistance env (south (sysstaff_skyline ss)) sk)"

text \<open>Lines 166-173: the local \<^verbatim>\<open>top\<close>, the limit above staff and chord.\<close>

definition forcedTop :: "Chord \<Rightarrow> real \<Rightarrow> real" where
  "forcedTop chord md =
     (let stem = chord_stem chord;
          top = (if chord_up chord \<and> chord_beam chord \<and> stem \<noteq> None
                 then item_y (the stem) + rect_top (item_bbox (the stem))
                 else (let un = chord_upNote chord in min 0 (item_y un + rect_top (item_bbox un))))
      in top - md)"

text \<open>Lines 202-209: the local \<^verbatim>\<open>bottom\<close>, the limit below staff and chord.\<close>

definition forcedBottom :: "Chord \<Rightarrow> real \<Rightarrow> real" where
  "forcedBottom chord md =
     (let stem = chord_stem chord;
          vStaff = chord_staff chord;
          bottom = (if \<not> chord_up chord \<and> chord_beam chord \<and> stem \<noteq> None
                    then item_y (the stem) + rect_bottom (item_bbox (the stem))
                    else (let dn = chord_downNote chord
                          in max (staff_height vStaff) (item_y dn + rect_bottom (item_bbox dn))))
      in bottom + md)"

text \<open>
  Lines 157-177: the vertical shift \<^verbatim>\<open>yd\<close> when placing above, not tight: the skyline
  query, then the forced space above staff and chord.
\<close>

definition ydAbove :: "Env \<Rightarrow> LayoutState \<Rightarrow> Note \<Rightarrow> real \<Rightarrow> real" where
  "ydAbove env sc n md =
     (let chord = note_chord n;
          d = distanceAbove env sc n;
          yd = 0;
          yd = (if d > 0 \<and> minDistanceStyled (fingering sc)
                then yd - (d + height (fingering sc) * 0.25) else yd);
          top = forcedTop chord md;
          diff = (rect_bottom (bbox (fingering sc)) + py (ipos (fingering sc)) + yd + note_y n) - top
      in if diff > 0 then yd - diff else yd)"

text \<open>Lines 193-213: the same when placing below.\<close>

definition ydBelow :: "Env \<Rightarrow> LayoutState \<Rightarrow> Note \<Rightarrow> real \<Rightarrow> real" where
  "ydBelow env sc n md =
     (let chord = note_chord n;
          d = distanceBelow env sc n;
          yd = 0;
          yd = (if d > 0 \<and> minDistanceStyled (fingering sc)
                then yd + (d + height (fingering sc) * 0.25) else yd);
          bottom = forcedBottom chord md;
          diff = bottom - (rect_top (bbox (fingering sc)) + py (ipos (fingering sc)) + yd + note_y n)
      in if diff > 0 then yd + diff else yd)"

text \<open>
  Lines 178-184 and 214-220, the same text in both branches: the rebase after a move by
  the user, then \<^verbatim>\<open>rypos() += yd\<close>.
\<close>

definition rebaseAndShift ::
    "Env \<Rightarrow> LayoutState \<Rightarrow> Note \<Rightarrow> bool \<Rightarrow> real \<Rightarrow> real \<Rightarrow> real \<Rightarrow> real \<Rightarrow> error + LayoutState" where
  "rebaseAndShift env sc n abv md yd sp rebase =
     (let r = systemRect sc n
      in if offsetChanged (fingering sc) \<noteq> NONE then
           (case inStaff sc abv r rebase of
              Inl e \<Rightarrow> Inl e
            | Inr b \<Rightarrow>
                (let res = call_rebaseMinDistance env md yd sp rebase abv b sc
                 in Inr (rypos_add (snd (fst res)) (snd res))))
         else Inr (rypos_add yd sc))"

text \<open>Lines 146-149: centring on the note head.\<close>

definition centreOnHead :: "LayoutState \<Rightarrow> Note \<Rightarrow> real \<Rightarrow> LayoutState" where
  "centreOnHead sc n headWidth =
     (let sc = (if note_mirror n then rxpos_sub (px (note_ipos n)) sc else sc)
      in rxpos_add (headWidth * 0.5) sc)"

text \<open>Lines 137-222: the branch \<^verbatim>\<open>layoutType() == ElementType::CHORD\<close>.\<close>

definition layoutChord :: "Env \<Rightarrow> LayoutState \<Rightarrow> Note \<Rightarrow> bool \<Rightarrow> real \<Rightarrow> real \<Rightarrow> error + LayoutState" where
  "layoutChord env sc n tight headWidth rebase =
     (let chord = note_chord n;
          above = placeAbove (fingering sc);
          sp = spatium (fingering sc);
          md = minDistance (fingering sc) * sp;
          sc = centreOnHead sc n headWidth
      in if above then
           (if tight then
              (let sc = (if chord_stem chord \<noteq> None then rxpos_sub (0.8 * sp) sc else sc)
               in Inr (rypos_sub (1.5 * sp) sc))
            else rebaseAndShift env sc n above md (ydAbove env sc n md) sp rebase)
         else
           (if tight then
              (let sc = (if chord_stem chord \<noteq> None then rxpos_add (0.8 * sp) sc else sc)
               in Inr (rypos_add (1.5 * sp) sc))
            else rebaseAndShift env sc n above md (ydBelow env sc n md) sp rebase))"

text \<open>Lines 223-231: the branch of the left-hand guitar fingering.\<close>

definition layoutLeftOfNote :: "LayoutState \<Rightarrow> Note \<Rightarrow> LayoutState" where
  "layoutLeftOfNote sc n =
     (let left = note_shape_left n
      in if left - note_x n > 0 then rxpos_sub left sc else rxpos_sub (note_x n) sc)"

text \<open>
  Lines 127-134: the offset is rebased after a drag (\<^verbatim>\<open>rebaseOffset()\<close>, whose argument
  defaults to \<^verbatim>\<open>true\<close>), then the fingering is excluded from the chord shape.
\<close>

definition excludeSelf :: "Env \<Rightarrow> LayoutState \<Rightarrow> bool \<Rightarrow> real \<times> LayoutState" where
  "excludeSelf env sc tight =
     (let rebase = 0;
          rb = (if offsetChanged (fingering sc) \<noteq> NONE \<and> \<not> tight
                then call_rebaseOffset env True sc else (rebase, sc))
      in (fst rb, setAutoplace False (snd rb)))"

text \<open>The local \<^verbatim>\<open>tight\<close> of lines 122-123.\<close>

definition tight :: "LayoutState \<Rightarrow> Note \<Rightarrow> bool" where
  "tight sc n =
     (let chord = note_chord n;
          voices = hasVoicesAt chord (chord_staffIdx chord)
      in voices \<and> chord_notes_size chord = 1 \<and> \<not> chord_beam chord
         \<and> textStyleType (fingering sc) \<noteq> STRING_NUMBER)"

text \<open>Lines 120-235: the branch \<^verbatim>\<open>autoplace() && note()\<close>.\<close>

definition layoutAutoplace :: "Env \<Rightarrow> LayoutState \<Rightarrow> Note \<Rightarrow> error + LayoutState" where
  "layoutAutoplace env sc n =
     (let tight = tight sc n;
          headWidth = note_bboxRightPos n;
          rb = excludeSelf env sc tight;
          rebase = fst rb;
          sc = snd rb;
          res = (if layoutType (fingering sc) = CHORD
                 then layoutChord env sc n tight headWidth rebase
                 else if textStyleType (fingering sc) = LH_GUITAR_FINGERING
                 then Inr (layoutLeftOfNote sc n)
                 else Inr sc)
      in case res of
           Inl e \<Rightarrow> Inl e
         | Inr sc \<Rightarrow> Inr (setAutoplace True sc))"

text \<open>Lines 116-117: \<^verbatim>\<open>TextBase::layout(); rypos() = 0.0;\<close>\<close>

definition baseLayout :: "Env \<Rightarrow> LayoutState \<Rightarrow> LayoutState" where
  "baseLayout env sc = rypos_set 0 (call_TextBase_layout env sc)"

definition layout :: "Env \<Rightarrow> LayoutState \<Rightarrow> error + LayoutState" where
  "layout env sc =
     (if tabFingeringHidden sc then Inr (setbbox RectF_null sc)
      else
        (let sc = baseLayout env sc;
             res = (if autoplace (fingering sc) \<and> Fingering_note sc \<noteq> None
                    then layoutAutoplace env sc (the (Fingering_note sc))
                    else if offsetChanged (fingering sc) \<noteq> NONE
                    then Inr (snd (call_rebaseOffset env False sc))
                    else Inr sc)
         in case res of
              Inl e \<Rightarrow> Inl e
            | Inr sc \<Rightarrow> Inr (setOffsetChanged False sc)))"

text \<open>
  Names for two states inside a call with an anchor note \<open>n\<close>, and for the local
  \<^verbatim>\<open>rebase\<close>: the state at line 136, where the layout type is tested (after the base
  layout, the rebase of the offset and the exclusion from the chord shape), and the state
  at line 150, where the placement side is tested (after the centring on the note head).
\<close>

definition stateAtDispatch :: "Env \<Rightarrow> LayoutState \<Rightarrow> Note \<Rightarrow> LayoutState" where
  "stateAtDispatch env sc n =
     snd (excludeSelf env (baseLayout env sc) (tight (baseLayout env sc) n))"

definition rebaseAtDispatch :: "Env \<Rightarrow> LayoutState \<Rightarrow> Note \<Rightarrow> real" where
  "rebaseAtDispatch env sc n =
     fst (excludeSelf env (baseLayout env sc) (tight (baseLayout env sc) n))"

definition stateAtPlacement :: "Env \<Rightarrow> LayoutState \<Rightarrow> Note \<Rightarrow> LayoutState" where
  "stateAtPlacement env sc n =
     centreOnHead (stateAtDispatch env sc n) n (note_bboxRightPos n)"

text \<open>
  The rule of the specification for the skyline push: "if the returned distance is
  positive and the minimum-distance style constraint is active, push the annotation
  further away by distance + 0.25 * ownHeight".
\<close>

definition spec_skylinePush :: "real \<Rightarrow> bool \<Rightarrow> real \<Rightarrow> real" where
  "spec_skylinePush d styled ownHeight = (if d > 0 \<and> styled then d + 0.25 * ownHeight else 0)"

text \<open>The Staff Skyline that a layout call consults, if there is an anchor note.\<close>

definition staffSkyline :: "LayoutState \<Rightarrow> Skyline option" where
  "staffSkyline sc = map_option (\<lambda>n. sysstaff_skyline (chord_sysStaff (note_chord n))) (parent sc)"

text \<open>
  The same state under another Staff Skyline: \<open>Note_withSkyline sky n\<close> is the note \<open>n\<close>
  with \<open>sky\<close> in the place that the code reads,
  \<^verbatim>\<open>chord->segment()->measure()->system()->staff(chord->vStaffIdx())->skyline()\<close>, and
  nothing else changed. It serves to state which part of the Staff Skyline a call depends
  on. The collaborators are \<open>skylineBlind\<close> when they do not look at the Staff Skyline.
\<close>

definition Note_withSkyline :: "Skyline \<Rightarrow> Note \<Rightarrow> Note" where
  "Note_withSkyline sky n =
     (let chord = note_chord n;
          s = chord_segment chord;
          m = segment_measure s;
          sys = measure_system m;
          i = chord_vStaffIdx chord
      in n\<lparr>note_chord := chord\<lparr>chord_segment := s\<lparr>segment_measure := m\<lparr>measure_system :=
           sys\<lparr>system_staff := (system_staff sys)(i := (system_staff sys i)\<lparr>sysstaff_skyline := sky\<rparr>)\<rparr>\<rparr>\<rparr>\<rparr>\<rparr>)"

definition withStaffSkyline :: "Skyline \<Rightarrow> LayoutState \<Rightarrow> LayoutState" where
  "withStaffSkyline sky sc = sc\<lparr>parent := map_option (Note_withSkyline sky) (parent sc)\<rparr>"

definition skylineBlind :: "Env \<Rightarrow> bool" where
  "skylineBlind env =
     ((\<forall>sky s. TextBase_layout env (withStaffSkyline sky s) = TextBase_layout env s)
      \<and> (\<forall>sky nox s. rebaseOffset env nox (withStaffSkyline sky s) = rebaseOffset env nox s)
      \<and> (\<forall>sky md yd sp rb abv fx s.
            rebaseMinDistance env md yd sp rb abv fx (withStaffSkyline sky s)
              = rebaseMinDistance env md yd sp rb abv fx s))"

subsection \<open>Concrete inputs\<close>

text \<open>
  A one-staff part, an empty Staff Skyline, a chord of one stemmed, unbeamed, stem-up note
  in a measure with several voices, and a fingering with autoplace on. The theorems below
  are instantiated on variations of this state.
\<close>

definition ex_staff :: Staff where
  "ex_staff =
     \<lparr>staff_part = \<lparr>part_nstaves = 1\<rparr>, staff_idx = 0, staff_rstaff = 0, staff_height = 4,
      staff_isTabStaff = (\<lambda>t. False), staff_showTabFingering = (\<lambda>t. True)\<rparr>"

definition ex_skyline :: Skyline where
  "ex_skyline = \<lparr>north = SkylineLine_new True, south = SkylineLine_new False\<rparr>"

definition ex_measure :: Measure where
  "ex_measure =
     \<lparr>measure_hasVoices = (\<lambda>i t l. True), measure_pos = \<lparr>px = 0, py = 0\<rparr>,
      measure_system = \<lparr>system_staff = (\<lambda>i. \<lparr>sysstaff_skyline = ex_skyline\<rparr>)\<rparr>\<rparr>"

definition ex_head :: ItemGeometry where
  "ex_head = \<lparr>item_y = 1, item_bbox = \<lparr>rect_x = 0, rect_y = - 0.5, rect_w = 1, rect_h = 1\<rparr>\<rparr>"

definition ex_stem :: ItemGeometry where
  "ex_stem = \<lparr>item_y = 1, item_bbox = \<lparr>rect_x = 0, rect_y = - 3.5, rect_w = 0.1, rect_h = 3.5\<rparr>\<rparr>"

definition ex_chord :: Chord where
  "ex_chord =
     \<lparr>chord_staff = ex_staff, chord_measure = ex_measure,
      chord_segment = \<lparr>segment_measure = ex_measure, segment_pos = \<lparr>px = 0, py = 0\<rparr>\<rparr>,
      chord_tick = 0, chord_actualTicks = 1 / 4, chord_up = True, chord_notes_size = 1,
      chord_beam = False, chord_stem = Some ex_stem, chord_staffIdx = 0, chord_vStaffIdx = 0,
      chord_pos = \<lparr>px = 0, py = 0\<rparr>, chord_upNote = ex_head, chord_downNote = ex_head\<rparr>"

definition ex_note :: Note where
  "ex_note =
     \<lparr>note_chord = ex_chord, note_tick = 0, note_bboxRightPos = 1, note_mirror = False,
      note_ipos = \<lparr>px = 0, py = 1\<rparr>, note_pos = \<lparr>px = 0, py = 1\<rparr>, note_x = 0, note_y = 1,
      note_shape_left = 0\<rparr>"

definition ex_fingering :: Fingering where
  "ex_fingering =
     \<lparr>textStyleType = FINGERING, placement = ABOVE, minDistance = 0.5, minDistanceStyled = True,
      offset = \<lparr>px = 0, py = 0\<rparr>, offsetChanged = NONE, autoplace = True,
      ipos = \<lparr>px = 7, py = 7\<rparr>, bbox = RectF_null, spatium = 1\<rparr>"

definition ex_score :: LayoutState where
  "ex_score = \<lparr>fingering = ex_fingering, parent = Some ex_note, staff = Some ex_staff\<rparr>"

text \<open>
  Collaborators for the instances: a text layout that resets the position and sets a box
  of width 1 and height 2 standing on the base line, rebase functions that change nothing,
  a skyline line that appends its segments, and a distance that compares the first
  segments of two lines (\<open>- 1000000\<close> when one of them is empty).
\<close>

definition ex_env :: Env where
  "ex_env =
     \<lparr>TextBase_layout =
        (\<lambda>sc. (fingering sc)\<lparr>ipos := \<lparr>px = 0, py = 0\<rparr>,
                               bbox := \<lparr>rect_x = 0, rect_y = - 2, rect_w = 1, rect_h = 2\<rparr>\<rparr>),
      rebaseOffset = (\<lambda>nox sc. (0, fingering sc)),
      rebaseMinDistance = (\<lambda>md yd sp rebase abv fix sc. ((md, yd), fingering sc)),
      SkylineLine_add = (\<lambda>l x y w. l\<lparr>sl_seg := sl_seg l @ [(x, y, w)]\<rparr>),
      SkylineLine_minDistance =
        (\<lambda>a b. if sl_seg a = [] \<or> sl_seg b = [] then - 1000000
               else fst (snd (hd (sl_seg a))) - fst (snd (hd (sl_seg b))))\<rparr>"

text \<open>
  The same note in a measure with a single voice, on the second and last staff of a
  two-staff part.
\<close>

definition ex_note_single :: Note where
  "ex_note_single =
     ex_note\<lparr>note_chord := ex_chord
       \<lparr>chord_measure := ex_measure\<lparr>measure_hasVoices := (\<lambda>i t l. False)\<rparr>,
        chord_staff := ex_staff\<lparr>staff_part := \<lparr>part_nstaves = 2\<rparr>, staff_idx := 1,
                                staff_rstaff := 1\<rparr>\<rparr>\<rparr>"

definition ex_score_single :: LayoutState where
  "ex_score_single = ex_score\<lparr>parent := Some ex_note_single\<rparr>"

text \<open>
  Variations: a string number (never tight); a fingering without anchor note that the user
  has moved; a tablature staff that hides fingerings; a string number placed below that
  the user has moved; a left-hand guitar fingering on a note whose shape starts at 0.3; a
  string number under a Staff Skyline whose north profile reaches up to \<open>y = - 3\<close> and
  whose south profile reaches down to \<open>y = 6\<close>.
\<close>

definition ex_score_string :: LayoutState where
  "ex_score_string = ex_score\<lparr>fingering := ex_fingering\<lparr>textStyleType := STRING_NUMBER\<rparr>\<rparr>"

definition ex_score_orphan :: LayoutState where
  "ex_score_orphan =
     ex_score\<lparr>fingering := ex_fingering\<lparr>offsetChanged := ABSOLUTE_OFFSET\<rparr>, parent := None\<rparr>"

definition ex_score_tab :: LayoutState where
  "ex_score_tab =
     ex_score\<lparr>fingering := ex_fingering\<lparr>offsetChanged := ABSOLUTE_OFFSET\<rparr>,
              staff := Some (ex_staff\<lparr>staff_isTabStaff := (\<lambda>t. True),
                                      staff_showTabFingering := (\<lambda>t. False)\<rparr>)\<rparr>"

definition ex_score_moved :: LayoutState where
  "ex_score_moved =
     ex_score\<lparr>fingering := ex_fingering\<lparr>textStyleType := STRING_NUMBER, placement := BELOW,
                                          offsetChanged := ABSOLUTE_OFFSET\<rparr>\<rparr>"

definition ex_score_guitar :: LayoutState where
  "ex_score_guitar =
     ex_score\<lparr>fingering := ex_fingering\<lparr>textStyleType := LH_GUITAR_FINGERING\<rparr>,
              parent := Some (ex_note\<lparr>note_shape_left := 0.3\<rparr>)\<rparr>"

definition ex_skyline_crowded :: Skyline where
  "ex_skyline_crowded =
     \<lparr>north = \<lparr>sl_north = True, sl_seg = [(0, - 3, 10)]\<rparr>,
      south = \<lparr>sl_north = False, sl_seg = [(0, 6, 10)]\<rparr>\<rparr>"

definition ex_note_crowded :: Note where
  "ex_note_crowded =
     ex_note\<lparr>note_chord := ex_chord
       \<lparr>chord_segment :=
          \<lparr>segment_measure =
             ex_measure\<lparr>measure_system :=
               \<lparr>system_staff = (\<lambda>i. \<lparr>sysstaff_skyline = ex_skyline_crowded\<rparr>)\<rparr>\<rparr>,
           segment_pos = \<lparr>px = 0, py = 0\<rparr>\<rparr>\<rparr>\<rparr>"

definition ex_score_crowded :: LayoutState where
  "ex_score_crowded =
     ex_score\<lparr>fingering := ex_fingering\<lparr>textStyleType := STRING_NUMBER\<rparr>,
              parent := Some ex_note_crowded\<rparr>"

text \<open>
  A Staff Skyline with the north profile of \<open>ex_skyline_crowded\<close> and another south
  profile, and one with another north profile and the south profile of
  \<open>ex_skyline_crowded\<close>.
\<close>

definition ex_skyline_same_north :: Skyline where
  "ex_skyline_same_north =
     \<lparr>north = \<lparr>sl_north = True, sl_seg = [(0, - 3, 10)]\<rparr>,
      south = \<lparr>sl_north = False, sl_seg = [(0, 40, 10)]\<rparr>\<rparr>"

definition ex_skyline_same_south :: Skyline where
  "ex_skyline_same_south =
     \<lparr>north = \<lparr>sl_north = True, sl_seg = [(0, - 7, 10)]\<rparr>,
      south = \<lparr>sl_north = False, sl_seg = [(0, 6, 10)]\<rparr>\<rparr>"

text \<open>
  A string number under a Staff Skyline whose north profile lies at \<open>y = 0.75\<close>, a quarter
  of a staff space above the lower edge of the fingering's box.
\<close>

definition ex_skyline_near :: Skyline where
  "ex_skyline_near =
     \<lparr>north = \<lparr>sl_north = True, sl_seg = [(0, 0.75, 10)]\<rparr>,
      south = \<lparr>sl_north = False, sl_seg = []\<rparr>\<rparr>"

definition ex_note_near :: Note where
  "ex_note_near = Note_withSkyline ex_skyline_near ex_note"

definition ex_score_near :: LayoutState where
  "ex_score_near = ex_score_string\<lparr>parent := Some ex_note_near\<rparr>"

text \<open>
  A variation of the collaborators in which the result of \<^verbatim>\<open>rebaseMinDistance\<close> shows the
  flag it was given: it adds 100 to \<^verbatim>\<open>yd\<close> when the flag is set.
\<close>

definition ex_env_probe :: Env where
  "ex_env_probe =
     ex_env\<lparr>rebaseMinDistance :=
       (\<lambda>md yd sp rebase abv fix sc. ((md, if fix then yd + 100 else yd), fingering sc))\<rparr>"

section \<open>Properties\<close>

lemmas ex_defs =
  ex_score_def ex_fingering_def ex_note_def ex_chord_def ex_stem_def ex_head_def
  ex_measure_def ex_skyline_def ex_staff_def ex_env_def ex_note_single_def ex_score_single_def
  ex_score_string_def ex_score_orphan_def ex_score_tab_def ex_score_moved_def
  ex_score_guitar_def ex_skyline_crowded_def ex_note_crowded_def ex_score_crowded_def
  ex_env_probe_def ex_skyline_same_north_def ex_skyline_same_south_def ex_skyline_near_def
  ex_score_near_def ex_note_near_def

lemmas state_defs =
  setbbox_def setAutoplace_def setOffsetChanged_def rxpos_add_def rxpos_sub_def rypos_add_def
  rypos_sub_def rypos_set_def call_TextBase_layout_def call_rebaseOffset_def
  call_rebaseMinDistance_def

lemmas geometry_defs =
  PointF_add_def RectF_null_def rect_top_def rect_bottom_def rect_width_def rect_height_def
  translated_def SkylineLine_new_def

lemmas layout_defs =
  layout_def layoutAutoplace_def layoutChord_def ydAbove_def ydBelow_def rebaseAndShift_def
  centreOnHead_def excludeSelf_def baseLayout_def layoutLeftOfNote_def tight_def systemRect_def
  chord_sysStaff_def inStaff_def tabFingeringHidden_def explicitParent_def Fingering_note_def
  hasVoicesAt_def layoutType_def pos_def height_def placeAbove_def stateAtPlacement_def
  stateAtDispatch_def rebaseAtDispatch_def staffSkyline_def distanceAbove_def
  distanceBelow_def forcedTop_def forcedBottom_def

subsection \<open>The paths of layout\<close>

lemma layout_tab:
  "tabFingeringHidden sc \<Longrightarrow> layout env sc = Inr (setbbox RectF_null sc)"
  by (simp add: layout_def)

lemma layout_no_autoplace:
  assumes "\<not> tabFingeringHidden sc"
    and "\<not> (autoplace (fingering (baseLayout env sc))
            \<and> Fingering_note (baseLayout env sc) \<noteq> None)"
  shows "layout env sc =
           Inr (setOffsetChanged False
                 (if offsetChanged (fingering (baseLayout env sc)) \<noteq> NONE
                  then snd (call_rebaseOffset env False (baseLayout env sc))
                  else baseLayout env sc))"
  unfolding layout_def Let_def if_not_P [OF assms(1)] if_not_P [OF assms(2)] by simp

lemma layout_autoplace:
  assumes "\<not> tabFingeringHidden sc"
    and "autoplace (fingering (baseLayout env sc))"
    and "Fingering_note (baseLayout env sc) = Some n"
  shows "layout env sc =
           (case layoutAutoplace env (baseLayout env sc) n of
              Inl e \<Rightarrow> Inl e
            | Inr s \<Rightarrow> Inr (setOffsetChanged False s))"
  using assms by (simp add: layout_def Let_def)

lemma baseLayout_note: "Fingering_note (baseLayout env sc) = Fingering_note sc"
  by (simp add: baseLayout_def Fingering_note_def rypos_set_def call_TextBase_layout_def)

lemma baseLayout_staff: "staff (baseLayout env sc) = staff sc"
  by (simp add: baseLayout_def rypos_set_def call_TextBase_layout_def)

lemma baseLayout_parent: "parent (baseLayout env sc) = parent sc"
  by (simp add: baseLayout_def rypos_set_def call_TextBase_layout_def)

lemma baseLayout_py: "py (ipos (fingering (baseLayout env sc))) = 0"
  by (simp add: baseLayout_def rypos_set_def)

lemma baseLayout_env:
  "baseLayout (env\<lparr>rebaseOffset := ro, rebaseMinDistance := rmd,
                   SkylineLine_add := skAdd, SkylineLine_minDistance := skDist\<rparr>) sc
     = baseLayout env sc"
  by (simp add: baseLayout_def call_TextBase_layout_def)

lemma centreOnHead_staff: "staff (centreOnHead sc n w) = staff sc"
  by (simp add: centreOnHead_def rxpos_add_def rxpos_sub_def)

lemma excludeSelf_staff: "staff (snd (excludeSelf env sc t)) = staff sc"
  by (simp add: excludeSelf_def setAutoplace_def call_rebaseOffset_def Let_def)

text \<open>The branch \<^verbatim>\<open>autoplace() && note()\<close> ends with \<^verbatim>\<open>setAutoplace(true)\<close>.\<close>

lemma layoutAutoplace_flags:
  "layoutAutoplace env sc n = Inr sc' \<Longrightarrow> autoplace (fingering sc')"
  unfolding layoutAutoplace_def Let_def
  by (auto simp add: setAutoplace_def split: sum.splits)

text \<open>No step of the branch touches anything but the fingering.\<close>

lemma layoutAutoplace_frame:
  "layoutAutoplace env sc n = Inr sc' \<Longrightarrow> parent sc' = parent sc \<and> staff sc' = staff sc"
  by (auto simp add: layoutAutoplace_def layoutChord_def rebaseAndShift_def centreOnHead_def
      excludeSelf_def layoutLeftOfNote_def state_defs Let_def split: if_splits sum.splits)

text \<open>The function returns whenever \<^verbatim>\<open>staff()\<close> is not null.\<close>

lemma rebaseAndShift_returns:
  "staff sc \<noteq> None \<Longrightarrow> \<exists>sc'. rebaseAndShift env sc n abv md yd sp rebase = Inr sc'"
  by (cases "staff sc") (simp_all add: rebaseAndShift_def inStaff_def Let_def)

lemma layoutChord_returns:
  assumes "staff sc \<noteq> None"
  shows "\<exists>sc'. layoutChord env sc n t w rebase = Inr sc'"
proof -
  from assms have "staff (centreOnHead sc n w) \<noteq> None"
    by (simp add: centreOnHead_staff)
  then show ?thesis
    unfolding layoutChord_def Let_def
    by (simp add: rebaseAndShift_returns)
qed

lemma layoutAutoplace_returns:
  assumes "staff sc \<noteq> None"
  shows "\<exists>sc'. layoutAutoplace env sc n = Inr sc'"
proof -
  from assms have "staff (snd (excludeSelf env sc (tight sc n))) \<noteq> None"
    by (simp add: excludeSelf_staff)
  from layoutChord_returns [OF this]
  obtain s where "layoutChord env (snd (excludeSelf env sc (tight sc n))) n (tight sc n)
      (note_bboxRightPos n) (fst (excludeSelf env sc (tight sc n))) = Inr s"
    by blast
  then show ?thesis
    unfolding layoutAutoplace_def Let_def by simp
qed

lemma layout_returns:
  assumes "staff sc \<noteq> None"
  shows "\<exists>sc'. layout env sc = Inr sc'"
proof -
  from assms have "staff (baseLayout env sc) \<noteq> None"
    by (simp add: baseLayout_staff)
  from layoutAutoplace_returns [OF this]
  obtain s where
    "layoutAutoplace env (baseLayout env sc) (the (Fingering_note (baseLayout env sc))) = Inr s"
    by blast
  then show ?thesis
    unfolding layout_def Let_def by simp
qed

text \<open>The tight path, lines 151-155 and 187-191.\<close>

lemma layoutAutoplace_tight:
  assumes "tight sc n" and "layoutType (fingering sc) = CHORD"
  shows "layoutAutoplace env sc n =
           Inr (sc\<lparr>fingering := (fingering sc)
             \<lparr>ipos :=
                \<lparr>px = px (ipos (fingering sc))
                       - (if note_mirror n then px (note_ipos n) else 0)
                       + note_bboxRightPos n * 0.5
                       + (if chord_stem (note_chord n) = None then 0
                          else if placeAbove (fingering sc)
                          then - (0.8 * spatium (fingering sc))
                          else 0.8 * spatium (fingering sc)),
                 py = (if placeAbove (fingering sc)
                       then py (ipos (fingering sc)) - 1.5 * spatium (fingering sc)
                       else py (ipos (fingering sc)) + 1.5 * spatium (fingering sc))\<rparr>,
              autoplace := True\<rparr>\<rparr>)"
proof -
  have ex: "excludeSelf env sc True = (0, setAutoplace False sc)"
    by (simp add: excludeSelf_def Let_def)
  have fl: "layoutType (fingering (setAutoplace False sc)) = CHORD"
    using assms(2) by (simp add: layoutType_def setAutoplace_def)
  have ch: "layoutChord env (setAutoplace False sc) n True (note_bboxRightPos n) 0 =
      Inr (sc\<lparr>fingering := (fingering sc)
             \<lparr>ipos :=
                \<lparr>px = px (ipos (fingering sc))
                       - (if note_mirror n then px (note_ipos n) else 0)
                       + note_bboxRightPos n * 0.5
                       + (if chord_stem (note_chord n) = None then 0
                          else if placeAbove (fingering sc)
                          then - (0.8 * spatium (fingering sc))
                          else 0.8 * spatium (fingering sc)),
                 py = (if placeAbove (fingering sc)
                       then py (ipos (fingering sc)) - 1.5 * spatium (fingering sc)
                       else py (ipos (fingering sc)) + 1.5 * spatium (fingering sc))\<rparr>,
              autoplace := False\<rparr>\<rparr>)"
    by (simp add: layoutChord_def centreOnHead_def placeAbove_def setAutoplace_def
        rxpos_add_def rxpos_sub_def rypos_add_def rypos_sub_def Let_def)
  show ?thesis
    unfolding layoutAutoplace_def Let_def using assms(1) ex fl ch
    by (simp add: setAutoplace_def)
qed

lemma layout_tight:
  assumes "\<not> tabFingeringHidden sc"
    and "autoplace (fingering (baseLayout env sc))"
    and "Fingering_note sc = Some n"
    and "layoutType (fingering (baseLayout env sc)) = CHORD"
    and "tight (baseLayout env sc) n"
  shows "layout env sc =
              Inr ((baseLayout env sc)\<lparr>fingering := (fingering (baseLayout env sc))
                \<lparr>ipos :=
                   \<lparr>px = px (ipos (fingering (baseLayout env sc)))
                          - (if note_mirror n then px (note_ipos n) else 0)
                          + note_bboxRightPos n * 0.5
                          + (if chord_stem (note_chord n) = None then 0
                             else if placeAbove (fingering (baseLayout env sc))
                             then - (0.8 * spatium (fingering (baseLayout env sc)))
                             else 0.8 * spatium (fingering (baseLayout env sc))),
                    py = (if placeAbove (fingering (baseLayout env sc))
                          then - (1.5 * spatium (fingering (baseLayout env sc)))
                          else 1.5 * spatium (fingering (baseLayout env sc)))\<rparr>,
                 autoplace := True, offsetChanged := NONE\<rparr>\<rparr>)"
proof -
  have n: "Fingering_note (baseLayout env sc) = Some n"
    using assms(3) by (simp add: baseLayout_note)
  show ?thesis
    unfolding layout_autoplace [OF assms(1) assms(2) n]
      layoutAutoplace_tight [OF assms(5) assms(4)]
    by (simp add: setOffsetChanged_def baseLayout_py)
qed

text \<open>The autoplace path, up to the test of the layout type at line 136.\<close>

lemma layout_dispatch:
  assumes "\<not> tabFingeringHidden sc"
    and "autoplace (fingering (baseLayout env sc))"
    and "Fingering_note sc = Some n"
  shows "layout env sc =
     (case (if layoutType (fingering (stateAtDispatch env sc n)) = CHORD
            then layoutChord env (stateAtDispatch env sc n) n (tight (baseLayout env sc) n)
                   (note_bboxRightPos n) (rebaseAtDispatch env sc n)
            else if textStyleType (fingering (stateAtDispatch env sc n)) = LH_GUITAR_FINGERING
            then Inr (layoutLeftOfNote (stateAtDispatch env sc n) n)
            else Inr (stateAtDispatch env sc n)) of
        Inl e \<Rightarrow> Inl e
      | Inr s \<Rightarrow> Inr (setOffsetChanged False (setAutoplace True s)))"
proof -
  have n: "Fingering_note (baseLayout env sc) = Some n"
    using assms(3) by (simp add: baseLayout_note)
  show ?thesis
    unfolding layout_autoplace [OF assms(1) assms(2) n] layoutAutoplace_def Let_def
      stateAtDispatch_def rebaseAtDispatch_def
    by (simp split: sum.splits)
qed

text \<open>Lines 223-231.\<close>

lemma layout_left_of_note:
  assumes "\<not> tabFingeringHidden sc"
    and "autoplace (fingering (baseLayout env sc))"
    and "Fingering_note sc = Some n"
    and "textStyleType (fingering (stateAtDispatch env sc n)) = LH_GUITAR_FINGERING"
  shows "layout env sc =
           Inr ((stateAtDispatch env sc n)\<lparr>fingering := (fingering (stateAtDispatch env sc n))
             \<lparr>ipos :=
                \<lparr>px = px (ipos (fingering (stateAtDispatch env sc n)))
                       - (if note_shape_left n > note_x n then note_shape_left n else note_x n),
                 py = py (ipos (fingering (stateAtDispatch env sc n)))\<rparr>,
              autoplace := True, offsetChanged := NONE\<rparr>\<rparr>)"
  unfolding layout_dispatch [OF assms(1) assms(2) assms(3)]
  using assms(4)
  by (simp add: layoutType_def layoutLeftOfNote_def rxpos_sub_def setAutoplace_def
      setOffsetChanged_def Let_def)

lemma stateAtDispatch_env:
  "stateAtDispatch (env\<lparr>rebaseMinDistance := rmd, SkylineLine_add := skAdd,
                        SkylineLine_minDistance := skDist\<rparr>) sc n
     = stateAtDispatch env sc n"
  by (simp add: stateAtDispatch_def excludeSelf_def baseLayout_def call_TextBase_layout_def
      call_rebaseOffset_def Let_def)

lemma baseLayout_env3:
  "baseLayout (env\<lparr>rebaseMinDistance := rmd, SkylineLine_add := skAdd,
                        SkylineLine_minDistance := skDist\<rparr>) sc
     = baseLayout env sc"
  by (simp add: baseLayout_def call_TextBase_layout_def)

text \<open>The chord path that is not tight, lines 156-185 and 192-221.\<close>

lemma layout_not_tight:
  assumes "\<not> tabFingeringHidden sc"
    and "autoplace (fingering (baseLayout env sc))"
    and "Fingering_note sc = Some n"
    and "layoutType (fingering (stateAtDispatch env sc n)) = CHORD"
    and "\<not> tight (baseLayout env sc) n"
  shows "layout env sc =
     (case rebaseAndShift env (stateAtPlacement env sc n) n
             (placeAbove (fingering (stateAtPlacement env sc n)))
             (minDistance (fingering (stateAtPlacement env sc n))
                * spatium (fingering (stateAtPlacement env sc n)))
             (if placeAbove (fingering (stateAtPlacement env sc n))
              then ydAbove env (stateAtPlacement env sc n) n
                     (minDistance (fingering (stateAtPlacement env sc n))
                        * spatium (fingering (stateAtPlacement env sc n)))
              else ydBelow env (stateAtPlacement env sc n) n
                     (minDistance (fingering (stateAtPlacement env sc n))
                        * spatium (fingering (stateAtPlacement env sc n))))
             (spatium (fingering (stateAtPlacement env sc n)))
             (rebaseAtDispatch env sc n) of
        Inl e \<Rightarrow> Inl e
      | Inr s \<Rightarrow> Inr (setOffsetChanged False (setAutoplace True s)))"
proof -
  have f: "fingering (stateAtPlacement env sc n) =
      (fingering (stateAtDispatch env sc n))\<lparr>ipos := ipos (fingering (stateAtPlacement env sc n))\<rparr>"
    by (simp add: stateAtPlacement_def centreOnHead_def rxpos_add_def rxpos_sub_def Let_def)
  have p: "placeAbove (fingering (stateAtPlacement env sc n))
      = placeAbove (fingering (stateAtDispatch env sc n))"
    and m: "minDistance (fingering (stateAtPlacement env sc n))
      = minDistance (fingering (stateAtDispatch env sc n))"
    and s: "spatium (fingering (stateAtPlacement env sc n))
      = spatium (fingering (stateAtDispatch env sc n))"
    by (subst f, simp add: placeAbove_def)+
  show ?thesis
    unfolding layout_dispatch [OF assms(1) assms(2) assms(3)] p m s
    using assms(4) assms(5)
    by (simp add: layoutChord_def stateAtPlacement_def Let_def)
qed

lemma stateAtPlacement_staff: "staff (stateAtPlacement env sc n) = staff sc"
  by (simp add: stateAtPlacement_def stateAtDispatch_def centreOnHead_staff excludeSelf_staff
      baseLayout_staff)

text \<open>The shift \<^verbatim>\<open>yd\<close> in closed form.\<close>

lemma ydAbove_push:
  "ydAbove env s n md =
     - spec_skylinePush (distanceAbove env s n) (minDistanceStyled (fingering s))
         (height (fingering s))
     - max 0 (rect_bottom (bbox (fingering s)) + py (ipos (fingering s))
              - spec_skylinePush (distanceAbove env s n) (minDistanceStyled (fingering s))
                  (height (fingering s))
              + note_y n - forcedTop (note_chord n) md)"
  by (simp add: ydAbove_def spec_skylinePush_def Let_def max_def)

lemma ydBelow_push:
  "ydBelow env s n md =
     spec_skylinePush (distanceBelow env s n) (minDistanceStyled (fingering s))
         (height (fingering s))
     + max 0 (forcedBottom (note_chord n) md
              - (rect_top (bbox (fingering s)) + py (ipos (fingering s))
                 + spec_skylinePush (distanceBelow env s n) (minDistanceStyled (fingering s))
                     (height (fingering s))
                 + note_y n))"
  by (simp add: ydBelow_def spec_skylinePush_def Let_def max_def)






text \<open>
  A call under another Staff Skyline: every step commutes with the replacement, but for
  the two distance queries, which read the north profile (above) or the south profile
  (below).
\<close>

lemma withStaffSkyline_fields:
  "fingering (withStaffSkyline sky sc) = fingering sc"
  "staff (withStaffSkyline sky sc) = staff sc"
  "parent (withStaffSkyline sky sc) = map_option (Note_withSkyline sky) (parent sc)"
  by (simp_all add: withStaffSkyline_def)

lemma withStaffSkyline_fingering:
  "withStaffSkyline sky (sc\<lparr>fingering := f\<rparr>) = (withStaffSkyline sky sc)\<lparr>fingering := f\<rparr>"
  by (simp add: withStaffSkyline_def)

lemma Note_withSkyline_fields:
  "note_tick (Note_withSkyline sky n) = note_tick n"
  "note_bboxRightPos (Note_withSkyline sky n) = note_bboxRightPos n"
  "note_mirror (Note_withSkyline sky n) = note_mirror n"
  "note_ipos (Note_withSkyline sky n) = note_ipos n"
  "note_pos (Note_withSkyline sky n) = note_pos n"
  "note_x (Note_withSkyline sky n) = note_x n"
  "note_y (Note_withSkyline sky n) = note_y n"
  "note_shape_left (Note_withSkyline sky n) = note_shape_left n"
  by (simp_all add: Note_withSkyline_def Let_def)

lemma Note_withSkyline_chord:
  "chord_staff (note_chord (Note_withSkyline sky n)) = chord_staff (note_chord n)"
  "chord_measure (note_chord (Note_withSkyline sky n)) = chord_measure (note_chord n)"
  "chord_tick (note_chord (Note_withSkyline sky n)) = chord_tick (note_chord n)"
  "chord_actualTicks (note_chord (Note_withSkyline sky n)) = chord_actualTicks (note_chord n)"
  "chord_up (note_chord (Note_withSkyline sky n)) = chord_up (note_chord n)"
  "chord_notes_size (note_chord (Note_withSkyline sky n)) = chord_notes_size (note_chord n)"
  "chord_beam (note_chord (Note_withSkyline sky n)) = chord_beam (note_chord n)"
  "chord_stem (note_chord (Note_withSkyline sky n)) = chord_stem (note_chord n)"
  "chord_staffIdx (note_chord (Note_withSkyline sky n)) = chord_staffIdx (note_chord n)"
  "chord_vStaffIdx (note_chord (Note_withSkyline sky n)) = chord_vStaffIdx (note_chord n)"
  "chord_pos (note_chord (Note_withSkyline sky n)) = chord_pos (note_chord n)"
  "chord_upNote (note_chord (Note_withSkyline sky n)) = chord_upNote (note_chord n)"
  "chord_downNote (note_chord (Note_withSkyline sky n)) = chord_downNote (note_chord n)"
  "segment_pos (chord_segment (note_chord (Note_withSkyline sky n)))
     = segment_pos (chord_segment (note_chord n))"
  "measure_pos (segment_measure (chord_segment (note_chord (Note_withSkyline sky n))))
     = measure_pos (segment_measure (chord_segment (note_chord n)))"
  "sysstaff_skyline (chord_sysStaff (note_chord (Note_withSkyline sky n))) = sky"
  by (simp_all add: Note_withSkyline_def chord_sysStaff_def Let_def)

lemma tabFingeringHidden_withStaffSkyline:
  "tabFingeringHidden (withStaffSkyline sky sc) = tabFingeringHidden sc"
  by (cases "parent sc")
    (simp_all add: tabFingeringHidden_def explicitParent_def withStaffSkyline_def
      Note_withSkyline_fields Let_def)

lemma tight_withStaffSkyline:
  "tight (withStaffSkyline sky sc) (Note_withSkyline sky n) = tight sc n"
  by (simp add: tight_def hasVoicesAt_def Note_withSkyline_chord withStaffSkyline_fields Let_def)

lemma systemRect_withStaffSkyline:
  "systemRect (withStaffSkyline sky sc) (Note_withSkyline sky n) = systemRect sc n"
  by (simp add: systemRect_def Note_withSkyline_chord Note_withSkyline_fields
      withStaffSkyline_fields Let_def)

lemma forced_withStaffSkyline:
  "forcedTop (note_chord (Note_withSkyline sky n)) md = forcedTop (note_chord n) md"
  "forcedBottom (note_chord (Note_withSkyline sky n)) md = forcedBottom (note_chord n) md"
  by (auto simp add: forcedTop_def forcedBottom_def Note_withSkyline_chord Let_def)

lemma ydAbove_withStaffSkyline:
  assumes "north sky = north (sysstaff_skyline (chord_sysStaff (note_chord n)))"
  shows "ydAbove env (withStaffSkyline sky sc) (Note_withSkyline sky n) md = ydAbove env sc n md"
  using assms
  by (simp add: ydAbove_def distanceAbove_def systemRect_withStaffSkyline forced_withStaffSkyline
      Note_withSkyline_chord Note_withSkyline_fields withStaffSkyline_fields Let_def)

lemma ydBelow_withStaffSkyline:
  assumes "south sky = south (sysstaff_skyline (chord_sysStaff (note_chord n)))"
  shows "ydBelow env (withStaffSkyline sky sc) (Note_withSkyline sky n) md = ydBelow env sc n md"
  using assms
  by (simp add: ydBelow_def distanceBelow_def systemRect_withStaffSkyline forced_withStaffSkyline
      Note_withSkyline_chord Note_withSkyline_fields withStaffSkyline_fields Let_def)

lemma setters_withStaffSkyline:
  "setAutoplace v (withStaffSkyline sky sc) = withStaffSkyline sky (setAutoplace v sc)"
  "setOffsetChanged v (withStaffSkyline sky sc) = withStaffSkyline sky (setOffsetChanged v sc)"
  "rxpos_add x (withStaffSkyline sky sc) = withStaffSkyline sky (rxpos_add x sc)"
  "rxpos_sub x (withStaffSkyline sky sc) = withStaffSkyline sky (rxpos_sub x sc)"
  "rypos_add x (withStaffSkyline sky sc) = withStaffSkyline sky (rypos_add x sc)"
  "rypos_sub x (withStaffSkyline sky sc) = withStaffSkyline sky (rypos_sub x sc)"
  "rypos_set x (withStaffSkyline sky sc) = withStaffSkyline sky (rypos_set x sc)"
  by (simp_all add: withStaffSkyline_def setAutoplace_def setOffsetChanged_def rxpos_add_def
      rxpos_sub_def rypos_add_def rypos_sub_def rypos_set_def)

lemma centreOnHead_withStaffSkyline:
  "centreOnHead (withStaffSkyline sky sc) (Note_withSkyline sky n) w
     = withStaffSkyline sky (centreOnHead sc n w)"
  by (simp add: centreOnHead_def Note_withSkyline_fields setters_withStaffSkyline Let_def)

lemma layoutLeftOfNote_withStaffSkyline:
  "layoutLeftOfNote (withStaffSkyline sky sc) (Note_withSkyline sky n)
     = withStaffSkyline sky (layoutLeftOfNote sc n)"
  by (simp add: layoutLeftOfNote_def Note_withSkyline_fields setters_withStaffSkyline Let_def)

lemma baseLayout_withStaffSkyline:
  assumes "\<forall>sky s. TextBase_layout env (withStaffSkyline sky s) = TextBase_layout env s"
  shows "baseLayout env (withStaffSkyline sky sc) = withStaffSkyline sky (baseLayout env sc)"
  using assms
  by (simp add: baseLayout_def call_TextBase_layout_def rypos_set_def withStaffSkyline_def)

lemma excludeSelf_withStaffSkyline:
  assumes "\<forall>sky nox s. rebaseOffset env nox (withStaffSkyline sky s) = rebaseOffset env nox s"
  shows "excludeSelf env (withStaffSkyline sky sc) t
     = (fst (excludeSelf env sc t), withStaffSkyline sky (snd (excludeSelf env sc t)))"
  using assms
  by (simp add: excludeSelf_def call_rebaseOffset_def setAutoplace_def withStaffSkyline_def
      Let_def)

lemma inStaff_withStaffSkyline:
  "inStaff (withStaffSkyline sky sc) abv r rb = inStaff sc abv r rb"
  by (simp add: inStaff_def withStaffSkyline_fields)

lemma call_rebaseMinDistance_withStaffSkyline:
  assumes "\<forall>sky md yd sp rb abv fx s.
      rebaseMinDistance env md yd sp rb abv fx (withStaffSkyline sky s)
        = rebaseMinDistance env md yd sp rb abv fx s"
  shows "call_rebaseMinDistance env md yd sp rb abv fx (withStaffSkyline sky sc)
     = (fst (call_rebaseMinDistance env md yd sp rb abv fx sc),
        withStaffSkyline sky (snd (call_rebaseMinDistance env md yd sp rb abv fx sc)))"
  using assms
  by (simp add: call_rebaseMinDistance_def withStaffSkyline_fingering)

lemma rebaseAndShift_withStaffSkyline:
  assumes "\<forall>sky md yd sp rb abv fx s.
      rebaseMinDistance env md yd sp rb abv fx (withStaffSkyline sky s)
        = rebaseMinDistance env md yd sp rb abv fx s"
  shows "rebaseAndShift env (withStaffSkyline sky sc) (Note_withSkyline sky n) abv md yd sp rb
     = map_sum id (withStaffSkyline sky) (rebaseAndShift env sc n abv md yd sp rb)"
proof (cases "inStaff sc abv (systemRect sc n) rb")
  case (Inl e)
  then show ?thesis
    by (simp add: rebaseAndShift_def systemRect_withStaffSkyline inStaff_withStaffSkyline
        withStaffSkyline_fields setters_withStaffSkyline Let_def)
next
  case (Inr b)
  then show ?thesis
    by (simp add: rebaseAndShift_def systemRect_withStaffSkyline inStaff_withStaffSkyline
        withStaffSkyline_fields setters_withStaffSkyline
        call_rebaseMinDistance_withStaffSkyline [OF assms] Let_def)
qed

lemma layoutChord_withStaffSkyline:
  assumes "\<forall>sky md yd sp rb abv fx s.
      rebaseMinDistance env md yd sp rb abv fx (withStaffSkyline sky s)
        = rebaseMinDistance env md yd sp rb abv fx s"
    and "if placeAbove (fingering sc)
         then north sky = north (sysstaff_skyline (chord_sysStaff (note_chord n)))
         else south sky = south (sysstaff_skyline (chord_sysStaff (note_chord n)))"
  shows "layoutChord env (withStaffSkyline sky sc) (Note_withSkyline sky n) t w rb
     = map_sum id (withStaffSkyline sky) (layoutChord env sc n t w rb)"
proof (cases "placeAbove (fingering sc)")
  case True
  with assms(2) have "north sky = north (sysstaff_skyline (chord_sysStaff (note_chord n)))"
    by simp
  with True show ?thesis
    by (simp add: layoutChord_def centreOnHead_withStaffSkyline withStaffSkyline_fields
        Note_withSkyline_chord setters_withStaffSkyline ydAbove_withStaffSkyline
        rebaseAndShift_withStaffSkyline [OF assms(1)] Let_def)
next
  case False
  with assms(2) have "south sky = south (sysstaff_skyline (chord_sysStaff (note_chord n)))"
    by simp
  with False show ?thesis
    by (simp add: layoutChord_def centreOnHead_withStaffSkyline withStaffSkyline_fields
        Note_withSkyline_chord setters_withStaffSkyline ydBelow_withStaffSkyline
        rebaseAndShift_withStaffSkyline [OF assms(1)] Let_def)
qed

lemma layoutAutoplace_withStaffSkyline:
  assumes "\<forall>sky nox s. rebaseOffset env nox (withStaffSkyline sky s) = rebaseOffset env nox s"
    and "\<forall>sky md yd sp rb abv fx s.
      rebaseMinDistance env md yd sp rb abv fx (withStaffSkyline sky s)
        = rebaseMinDistance env md yd sp rb abv fx s"
    and "if placeAbove (fingering (snd (excludeSelf env sc (tight sc n))))
         then north sky = north (sysstaff_skyline (chord_sysStaff (note_chord n)))
         else south sky = south (sysstaff_skyline (chord_sysStaff (note_chord n)))"
  shows "layoutAutoplace env (withStaffSkyline sky sc) (Note_withSkyline sky n)
     = map_sum id (withStaffSkyline sky) (layoutAutoplace env sc n)"
  unfolding layoutAutoplace_def Let_def tight_withStaffSkyline
    excludeSelf_withStaffSkyline [OF assms(1)]
  by (simp add: withStaffSkyline_fields Note_withSkyline_fields
      layoutChord_withStaffSkyline [OF assms(2) assms(3)] layoutLeftOfNote_withStaffSkyline
      setters_withStaffSkyline split: sum.splits)

lemma layout_withStaffSkyline:
  assumes "\<forall>sky s. TextBase_layout env (withStaffSkyline sky s) = TextBase_layout env s"
    and "\<forall>sky nox s. rebaseOffset env nox (withStaffSkyline sky s) = rebaseOffset env nox s"
    and "\<forall>sky md yd sp rb abv fx s.
      rebaseMinDistance env md yd sp rb abv fx (withStaffSkyline sky s)
        = rebaseMinDistance env md yd sp rb abv fx s"
    and "\<not> tabFingeringHidden sc"
    and "autoplace (fingering (baseLayout env sc))"
    and "Fingering_note sc = Some n"
    and "if placeAbove (fingering (stateAtPlacement env sc n))
         then north sky = north (sysstaff_skyline (chord_sysStaff (note_chord n)))
         else south sky = south (sysstaff_skyline (chord_sysStaff (note_chord n)))"
  shows "layout env (withStaffSkyline sky sc) = map_sum id (withStaffSkyline sky) (layout env sc)"
proof -
  have p: "placeAbove (fingering (stateAtPlacement env sc n))
      = placeAbove (fingering (snd (excludeSelf env (baseLayout env sc)
          (tight (baseLayout env sc) n))))"
    by (simp add: stateAtPlacement_def stateAtDispatch_def centreOnHead_def rxpos_add_def
        rxpos_sub_def placeAbove_def Let_def)
  have n: "Fingering_note (baseLayout env sc) = Some n"
    using assms(6) by (simp add: baseLayout_note)
  have n': "Fingering_note (baseLayout env (withStaffSkyline sky sc))
      = Some (Note_withSkyline sky n)"
    using assms(6) by (simp add: Fingering_note_def baseLayout_parent withStaffSkyline_fields)
  have t': "\<not> tabFingeringHidden (withStaffSkyline sky sc)"
    using assms(4) by (simp add: tabFingeringHidden_withStaffSkyline)
  have a': "autoplace (fingering (baseLayout env (withStaffSkyline sky sc)))"
    using assms(5) by (simp add: baseLayout_withStaffSkyline [OF assms(1)] withStaffSkyline_fields)
  show ?thesis
    unfolding layout_autoplace [OF t' a' n'] layout_autoplace [OF assms(4) assms(5) n]
      baseLayout_withStaffSkyline [OF assms(1)]
      layoutAutoplace_withStaffSkyline [OF assms(2) assms(3) assms(7) [unfolded p]]
    by (simp add: setters_withStaffSkyline split: sum.splits)
qed


subsection \<open>Placement policy\<close>

text \<open>
  C1 (as the code has it). For a fingering whose anchor note exists and whose chord's
  measure has several voices at the chord's tick on that staff, \<open>calculatePlacement\<close>
  returns \<open>BELOW\<close> exactly when the chord's stem is down (\<^verbatim>\<open>chord->up()\<close> is false) and
  \<open>ABOVE\<close> exactly when the stem is up. The number of staves of the part is arbitrary
  in the statement: it plays no role.
\<close>

theorem C1_multi_voice_placement:
  assumes "Fingering_note sc = Some n"
    and "hasVoicesAt (note_chord n) (staff_idx (chord_staff (note_chord n)))"
  shows "(calculatePlacement sc = BELOW \<longleftrightarrow> \<not> chord_up (note_chord n))
       \<and> (calculatePlacement sc = ABOVE \<longleftrightarrow> chord_up (note_chord n))"
  using assms by (simp add: calculatePlacement_def Let_def)

theorem C1_multi_voice_placement_witness:
  "Fingering_note ex_score = Some ex_note
   \<and> hasVoicesAt (note_chord ex_note) (staff_idx (chord_staff (note_chord ex_note)))
   \<and> chord_up (note_chord ex_note)
   \<and> (calculatePlacement ex_score = BELOW \<longleftrightarrow> \<not> chord_up (note_chord ex_note))
   \<and> (calculatePlacement ex_score = ABOVE \<longleftrightarrow> chord_up (note_chord ex_note))"
proof -
  have n: "Fingering_note ex_score = Some ex_note"
    by (simp add: Fingering_note_def ex_score_def)
  have v: "hasVoicesAt (note_chord ex_note) (staff_idx (chord_staff (note_chord ex_note)))"
    by (simp add: hasVoicesAt_def ex_note_def ex_chord_def ex_measure_def)
  have u: "chord_up (note_chord ex_note)"
    by (simp add: ex_note_def ex_chord_def)
  from n v u C1_multi_voice_placement [OF n v] show ?thesis by simp
qed

text \<open>
  The claim as the specification words it (\<open>BELOW\<close> exactly when the stem is up) fails on
  a stem-up chord in a measure with several voices: the result is not \<open>BELOW\<close>.
\<close>

theorem C1_counterexample:
  "Fingering_note ex_score = Some ex_note
   \<and> hasVoicesAt (note_chord ex_note) (staff_idx (chord_staff (note_chord ex_note)))
   \<and> chord_up (note_chord ex_note)
   \<and> calculatePlacement ex_score \<noteq> BELOW"
  by (simp add: calculatePlacement_def Fingering_note_def hasVoicesAt_def ex_defs Let_def)

text \<open>
  C5. For a fingering whose anchor note exists and whose chord's measure has a single
  voice at that tick, \<open>calculatePlacement\<close> returns \<open>BELOW\<close> if and only if the part has
  more than one staff and this staff is its last one (\<^verbatim>\<open>rstaff() == nstaves - 1\<close>); in
  every other single-voice case it returns \<open>ABOVE\<close>.
\<close>

theorem C5_single_voice_placement:
  assumes "Fingering_note sc = Some n"
    and "\<not> hasVoicesAt (note_chord n) (staff_idx (chord_staff (note_chord n)))"
  shows "(calculatePlacement sc = BELOW \<longleftrightarrow>
            part_nstaves (staff_part (chord_staff (note_chord n))) > 1
            \<and> staff_rstaff (chord_staff (note_chord n))
                = part_nstaves (staff_part (chord_staff (note_chord n))) - 1)
       \<and> (calculatePlacement sc = ABOVE \<longleftrightarrow>
            \<not> (part_nstaves (staff_part (chord_staff (note_chord n))) > 1
               \<and> staff_rstaff (chord_staff (note_chord n))
                   = part_nstaves (staff_part (chord_staff (note_chord n))) - 1))"
  using assms by (simp add: calculatePlacement_def Let_def)

theorem C5_single_voice_placement_witness:
  "Fingering_note ex_score_single = Some ex_note_single
   \<and> \<not> hasVoicesAt (note_chord ex_note_single)
         (staff_idx (chord_staff (note_chord ex_note_single)))
   \<and> part_nstaves (staff_part (chord_staff (note_chord ex_note_single))) = 2
   \<and> staff_rstaff (chord_staff (note_chord ex_note_single)) = 1
   \<and> calculatePlacement ex_score_single = BELOW"
proof -
  have n: "Fingering_note ex_score_single = Some ex_note_single"
    by (simp add: Fingering_note_def ex_score_single_def)
  have v: "\<not> hasVoicesAt (note_chord ex_note_single)
                (staff_idx (chord_staff (note_chord ex_note_single)))"
    by (simp add: hasVoicesAt_def ex_note_single_def)
  have p: "part_nstaves (staff_part (chord_staff (note_chord ex_note_single))) = 2"
    and r: "staff_rstaff (chord_staff (note_chord ex_note_single)) = 1"
    by (simp_all add: ex_note_single_def)
  from n v p r C5_single_voice_placement [OF n v] show ?thesis by simp
qed

subsection \<open>What layout leaves alone\<close>

text \<open>
  C2 (as the code has it). \<open>layout\<close> does not insert the bounding box into the Staff
  Skyline. Whenever a call returns, the anchor note with its chord, measure and system, the
  staff, and so both profiles of the Staff Skyline are what they were before the call. For a
  fingering with autoplace on and an anchor note (past the early return of the tablature
  staff), the call ends with autoplace switched on again and the offset-changed flag reset
  to \<open>NONE\<close>. The Staff Skyline is only read, the north profile when placing above and the
  south profile when placing below: if the collaborators that are not among the sources do
  not look at the Staff Skyline, the same call under any Staff Skyline with the same north
  profile (placing above) or the same south profile (placing below) returns the same
  fingering.
\<close>

theorem C2_skyline_unchanged:
  assumes "layout env sc = Inr sc'"
  shows "parent sc' = parent sc \<and> staff sc' = staff sc \<and> staffSkyline sc' = staffSkyline sc
       \<and> (\<not> tabFingeringHidden sc \<and> autoplace (fingering (baseLayout env sc))
            \<and> Fingering_note sc = Some n \<longrightarrow>
            autoplace (fingering sc') \<and> offsetChanged (fingering sc') = NONE
            \<and> (skylineBlind env \<longrightarrow>
                 (\<forall>sky. (if placeAbove (fingering (stateAtPlacement env sc n))
                         then north sky = north (sysstaff_skyline (chord_sysStaff (note_chord n)))
                         else south sky = south (sysstaff_skyline (chord_sysStaff (note_chord n))))
                        \<longrightarrow> layout env (withStaffSkyline sky sc)
                              = Inr (withStaffSkyline sky sc'))))"
proof -
  have frame: "parent sc' = parent sc \<and> staff sc' = staff sc"
  proof (cases "tabFingeringHidden sc")
    case True
    with assms have "sc' = setbbox RectF_null sc" by (simp add: layout_tab)
    then show ?thesis by (simp add: setbbox_def)
  next
    case nt: False
    show ?thesis
    proof (cases "autoplace (fingering (baseLayout env sc))
                  \<and> Fingering_note (baseLayout env sc) \<noteq> None")
      case True
      then obtain m where m: "Fingering_note (baseLayout env sc) = Some m" by blast
      from True have a: "autoplace (fingering (baseLayout env sc))" by simp
      from assms layout_autoplace [OF nt a m]
      obtain s where s: "layoutAutoplace env (baseLayout env sc) m = Inr s"
        and sc': "sc' = setOffsetChanged False s"
        by (cases "layoutAutoplace env (baseLayout env sc) m") auto
      from layoutAutoplace_frame [OF s] sc' show ?thesis
        by (simp add: setOffsetChanged_def baseLayout_parent baseLayout_staff)
    next
      case False
      from assms layout_no_autoplace [OF nt False]
      have "sc' = setOffsetChanged False
                 (if offsetChanged (fingering (baseLayout env sc)) \<noteq> NONE
                  then snd (call_rebaseOffset env False (baseLayout env sc))
                  else baseLayout env sc)" by simp
      then show ?thesis
        by (simp add: setOffsetChanged_def call_rebaseOffset_def baseLayout_parent
            baseLayout_staff)
    qed
  qed
  have path: "autoplace (fingering sc') \<and> offsetChanged (fingering sc') = NONE
            \<and> (skylineBlind env \<longrightarrow>
                 (\<forall>sky. (if placeAbove (fingering (stateAtPlacement env sc n))
                         then north sky = north (sysstaff_skyline (chord_sysStaff (note_chord n)))
                         else south sky = south (sysstaff_skyline (chord_sysStaff (note_chord n))))
                        \<longrightarrow> layout env (withStaffSkyline sky sc)
                              = Inr (withStaffSkyline sky sc')))"
    if nt: "\<not> tabFingeringHidden sc" and a: "autoplace (fingering (baseLayout env sc))"
      and n: "Fingering_note sc = Some n"
  proof -
    have m: "Fingering_note (baseLayout env sc) = Some n"
      using n by (simp add: baseLayout_note)
    from assms layout_autoplace [OF nt a m]
    obtain s where s: "layoutAutoplace env (baseLayout env sc) n = Inr s"
      and sc': "sc' = setOffsetChanged False s"
      by (cases "layoutAutoplace env (baseLayout env sc) n") auto
    from layoutAutoplace_flags [OF s] sc'
    have fl: "autoplace (fingering sc') \<and> offsetChanged (fingering sc') = NONE"
      by (simp add: setOffsetChanged_def)
    have "layout env (withStaffSkyline sky sc) = Inr (withStaffSkyline sky sc')"
      if b: "skylineBlind env"
        and c: "if placeAbove (fingering (stateAtPlacement env sc n))
                then north sky = north (sysstaff_skyline (chord_sysStaff (note_chord n)))
                else south sky = south (sysstaff_skyline (chord_sysStaff (note_chord n)))"
      for sky
    proof -
      from b have b1: "\<forall>sky s. TextBase_layout env (withStaffSkyline sky s) = TextBase_layout env s"
        and b2: "\<forall>sky nox s. rebaseOffset env nox (withStaffSkyline sky s) = rebaseOffset env nox s"
        and b3: "\<forall>sky md yd sp rb abv fx s.
            rebaseMinDistance env md yd sp rb abv fx (withStaffSkyline sky s)
              = rebaseMinDistance env md yd sp rb abv fx s"
        unfolding skylineBlind_def by blast+
      from layout_withStaffSkyline [OF b1 b2 b3 nt a n c] assms show ?thesis by simp
    qed
    with fl show ?thesis by blast
  qed
  from frame path show ?thesis by (simp add: staffSkyline_def)
qed

theorem C2_skyline_unchanged_witness:
  "layout ex_env ex_score_crowded =
     Inr (ex_score_crowded\<lparr>fingering := (fingering ex_score_crowded)
       \<lparr>ipos := \<lparr>px = 1 / 2, py = - (9 / 2)\<rparr>,
        bbox := \<lparr>rect_x = 0, rect_y = - 2, rect_w = 1, rect_h = 2\<rparr>\<rparr>\<rparr>)
   \<and> staffSkyline (projr (layout ex_env ex_score_crowded)) = Some ex_skyline_crowded
   \<and> staffSkyline ex_score_crowded = Some ex_skyline_crowded
   \<and> \<not> tabFingeringHidden ex_score_crowded
   \<and> autoplace (fingering (baseLayout ex_env ex_score_crowded))
   \<and> Fingering_note ex_score_crowded = Some ex_note_crowded
   \<and> autoplace (fingering (projr (layout ex_env ex_score_crowded)))
   \<and> offsetChanged (fingering (projr (layout ex_env ex_score_crowded))) = NONE
   \<and> skylineBlind ex_env
   \<and> placeAbove (fingering (stateAtPlacement ex_env ex_score_crowded ex_note_crowded))
   \<and> north ex_skyline_same_north
        = north (sysstaff_skyline (chord_sysStaff (note_chord ex_note_crowded)))
   \<and> south ex_skyline_same_north
        \<noteq> south (sysstaff_skyline (chord_sysStaff (note_chord ex_note_crowded)))
   \<and> layout ex_env (withStaffSkyline ex_skyline_same_north ex_score_crowded) =
       Inr (withStaffSkyline ex_skyline_same_north
             (ex_score_crowded\<lparr>fingering := (fingering ex_score_crowded)
               \<lparr>ipos := \<lparr>px = 1 / 2, py = - (9 / 2)\<rparr>,
                bbox := \<lparr>rect_x = 0, rect_y = - 2, rect_w = 1, rect_h = 2\<rparr>\<rparr>\<rparr>))
   \<and> py (ipos (fingering (projr
          (layout ex_env (withStaffSkyline ex_skyline_same_south ex_score_crowded)))))
       = - (17 / 2)"
proof -
  let ?r = "ex_score_crowded\<lparr>fingering := (fingering ex_score_crowded)
       \<lparr>ipos := \<lparr>px = 1 / 2, py = - (9 / 2)\<rparr>,
        bbox := \<lparr>rect_x = 0, rect_y = - 2, rect_w = 1, rect_h = 2\<rparr>\<rparr>\<rparr>"
  have l: "layout ex_env ex_score_crowded = Inr ?r"
    by (simp add: ex_defs state_defs geometry_defs layout_defs Let_def)
  have s: "staffSkyline ex_score_crowded = Some ex_skyline_crowded"
    by (simp add: staffSkyline_def chord_sysStaff_def ex_score_crowded_def ex_score_def
        ex_note_crowded_def)
  have h1: "\<not> tabFingeringHidden ex_score_crowded"
    by (simp add: tabFingeringHidden_def explicitParent_def ex_score_crowded_def ex_score_def
        ex_staff_def Let_def)
  have h2: "autoplace (fingering (baseLayout ex_env ex_score_crowded))"
    by (simp add: baseLayout_def state_defs ex_env_def ex_score_crowded_def ex_score_def
        ex_fingering_def)
  have h3: "Fingering_note ex_score_crowded = Some ex_note_crowded"
    by (simp add: Fingering_note_def ex_score_crowded_def ex_score_def)
  have b: "skylineBlind ex_env"
    by (simp add: skylineBlind_def ex_env_def withStaffSkyline_def)
  have a: "placeAbove (fingering (stateAtPlacement ex_env ex_score_crowded ex_note_crowded))"
    by (simp add: ex_defs state_defs layout_defs Let_def)
  have k: "sysstaff_skyline (chord_sysStaff (note_chord ex_note_crowded)) = ex_skyline_crowded"
    by (simp add: chord_sysStaff_def ex_note_crowded_def)
  have nn: "north ex_skyline_same_north
        = north (sysstaff_skyline (chord_sysStaff (note_chord ex_note_crowded)))"
    and ss: "south ex_skyline_same_north
        \<noteq> south (sysstaff_skyline (chord_sysStaff (note_chord ex_note_crowded)))"
    unfolding k by (simp_all add: ex_skyline_same_north_def ex_skyline_crowded_def)
  note c = C2_skyline_unchanged [OF l, where n = ex_note_crowded]
  from c have u: "staffSkyline ?r = staffSkyline ex_score_crowded" by blast
  from c h1 h2 h3 have f: "autoplace (fingering ?r)" "offsetChanged (fingering ?r) = NONE"
    by blast+
  from c h1 h2 h3 b a nn
  have w: "layout ex_env (withStaffSkyline ex_skyline_same_north ex_score_crowded)
      = Inr (withStaffSkyline ex_skyline_same_north ?r)"
    by simp
  have o: "py (ipos (fingering (projr
          (layout ex_env (withStaffSkyline ex_skyline_same_south ex_score_crowded)))))
       = - (17 / 2)"
    by (simp add: withStaffSkyline_def Note_withSkyline_def ex_defs state_defs geometry_defs
        layout_defs Let_def)
  from l s u f h1 h2 h3 b a nn ss w o show ?thesis by simp
qed

text \<open>
  The claim as the specification words it fails on a string number with autoplace on and
  an anchor note, laid out under an empty Staff Skyline: the call returns, the fingering
  has its box of width 1 and height 2, and both profiles of the Staff Skyline are still
  empty.
\<close>

theorem C2_counterexample:
  "autoplace (fingering ex_score_string)
   \<and> Fingering_note ex_score_string = Some ex_note
   \<and> layout ex_env ex_score_string =
       Inr (ex_score_string\<lparr>fingering := (fingering ex_score_string)
         \<lparr>ipos := \<lparr>px = 1 / 2, py = - (3 / 2)\<rparr>,
          bbox := \<lparr>rect_x = 0, rect_y = - 2, rect_w = 1, rect_h = 2\<rparr>\<rparr>\<rparr>)
   \<and> staffSkyline (projr (layout ex_env ex_score_string)) = Some ex_skyline
   \<and> sl_seg (north ex_skyline) = []
   \<and> sl_seg (south ex_skyline) = []"
  by (simp add: ex_defs state_defs geometry_defs layout_defs Let_def)

text \<open>
  C6. Without anchor note, \<open>calculatePlacement\<close> returns \<open>ABOVE\<close>, and \<open>layout\<close> returns
  (no failure) the state of the base text layout with the vertical position reset to 0,
  the offset rebased by \<^verbatim>\<open>rebaseOffset(false)\<close> if the user has moved the fingering, and the
  offset-changed flag reset. No collision avoidance and no skyline query takes part: the
  result is the same whatever \<^verbatim>\<open>rebaseMinDistance\<close>, \<^verbatim>\<open>SkylineLine::add\<close> and
  \<^verbatim>\<open>SkylineLine::minDistance\<close> are.
\<close>

theorem C6_absent_note:
  assumes "Fingering_note sc = None"
  shows "calculatePlacement sc = ABOVE
       \<and> layout env sc =
           Inr (setOffsetChanged False
                 (if offsetChanged (fingering (baseLayout env sc)) \<noteq> NONE
                  then snd (call_rebaseOffset env False (baseLayout env sc))
                  else baseLayout env sc))
       \<and> layout (env\<lparr>rebaseMinDistance := rmd, SkylineLine_add := skAdd,
                      SkylineLine_minDistance := skDist\<rparr>) sc
           = layout env sc"
  using assms
  by (simp add: calculatePlacement_def layout_def tabFingeringHidden_def explicitParent_def
      Fingering_note_def baseLayout_def state_defs Let_def)

theorem C6_absent_note_witness:
  "Fingering_note ex_score_orphan = None
   \<and> calculatePlacement ex_score_orphan = ABOVE
   \<and> layout ex_env ex_score_orphan =
       Inr (ex_score_orphan\<lparr>fingering := (fingering ex_score_orphan)
         \<lparr>ipos := \<lparr>px = 0, py = 0\<rparr>,
          bbox := \<lparr>rect_x = 0, rect_y = - 2, rect_w = 1, rect_h = 2\<rparr>,
          offsetChanged := NONE\<rparr>\<rparr>)
   \<and> layout ex_env_probe ex_score_orphan = layout ex_env ex_score_orphan"
proof -
  have n: "Fingering_note ex_score_orphan = None"
    by (simp add: Fingering_note_def ex_score_orphan_def)
  have p: "ex_env_probe = ex_env\<lparr>rebaseMinDistance := rebaseMinDistance ex_env_probe,
      SkylineLine_add := SkylineLine_add ex_env,
      SkylineLine_minDistance := SkylineLine_minDistance ex_env\<rparr>"
    by (simp add: ex_env_probe_def)
  from C6_absent_note [OF n, where env = ex_env and rmd = "rebaseMinDistance ex_env_probe"
      and skAdd = "SkylineLine_add ex_env" and skDist = "SkylineLine_minDistance ex_env"]
  have "calculatePlacement ex_score_orphan = ABOVE"
    and "layout ex_env ex_score_orphan =
           Inr (setOffsetChanged False
                 (if offsetChanged (fingering (baseLayout ex_env ex_score_orphan)) \<noteq> NONE
                  then snd (call_rebaseOffset ex_env False (baseLayout ex_env ex_score_orphan))
                  else baseLayout ex_env ex_score_orphan))"
    and "layout ex_env_probe ex_score_orphan = layout ex_env ex_score_orphan"
    unfolding p [symmetric] by simp_all
  with n show ?thesis
    by (simp add: ex_defs state_defs baseLayout_def)
qed

subsection \<open>Tight mode\<close>

text \<open>
  C3 (as the code has it). For a fingering which, after the base text layout, has
  autoplace on, an anchor note and the chord layout type: tight mode holds exactly when the
  chord has exactly one note, no beam, several voices at that tick, and the text style is
  not the string number. In tight mode the result does not depend on the skyline nor on
  the rebase functions, and the position is fixed: horizontally the centring on the note
  head (half the head width, less the note's own x when the head is mirrored) and, only
  when the chord has a stem, 0.8 staff spaces to the left when placed above and to the
  right when placed below; vertically 1.5 staff spaces up when placed above and down when
  placed below.
\<close>

theorem C3_tight_mode:
  assumes "\<not> tabFingeringHidden sc"
    and "autoplace (fingering (baseLayout env sc))"
    and "Fingering_note sc = Some n"
    and "layoutType (fingering (baseLayout env sc)) = CHORD"
  shows "(tight (baseLayout env sc) n \<longleftrightarrow>
            chord_notes_size (note_chord n) = 1 \<and> \<not> chord_beam (note_chord n)
            \<and> hasVoicesAt (note_chord n) (chord_staffIdx (note_chord n))
            \<and> textStyleType (fingering (baseLayout env sc)) \<noteq> STRING_NUMBER)
       \<and> (tight (baseLayout env sc) n \<longrightarrow>
            layout env sc =
              Inr ((baseLayout env sc)\<lparr>fingering := (fingering (baseLayout env sc))
                \<lparr>ipos :=
                   \<lparr>px = px (ipos (fingering (baseLayout env sc)))
                          - (if note_mirror n then px (note_ipos n) else 0)
                          + note_bboxRightPos n * 0.5
                          + (if chord_stem (note_chord n) = None then 0
                             else if placeAbove (fingering (baseLayout env sc))
                             then - (0.8 * spatium (fingering (baseLayout env sc)))
                             else 0.8 * spatium (fingering (baseLayout env sc))),
                    py = (if placeAbove (fingering (baseLayout env sc))
                          then - (1.5 * spatium (fingering (baseLayout env sc)))
                          else 1.5 * spatium (fingering (baseLayout env sc)))\<rparr>,
                 autoplace := True, offsetChanged := NONE\<rparr>\<rparr>)
            \<and> layout (env\<lparr>rebaseOffset := ro, rebaseMinDistance := rmd,
                           SkylineLine_add := skAdd, SkylineLine_minDistance := skDist\<rparr>) sc
                = layout env sc)"
proof (intro conjI impI)
  show "tight (baseLayout env sc) n \<longleftrightarrow>
            chord_notes_size (note_chord n) = 1 \<and> \<not> chord_beam (note_chord n)
            \<and> hasVoicesAt (note_chord n) (chord_staffIdx (note_chord n))
            \<and> textStyleType (fingering (baseLayout env sc)) \<noteq> STRING_NUMBER"
    by (auto simp add: tight_def Let_def)
next
  assume t: "tight (baseLayout env sc) n"
  show "layout env sc =
              Inr ((baseLayout env sc)\<lparr>fingering := (fingering (baseLayout env sc))
                \<lparr>ipos :=
                   \<lparr>px = px (ipos (fingering (baseLayout env sc)))
                          - (if note_mirror n then px (note_ipos n) else 0)
                          + note_bboxRightPos n * 0.5
                          + (if chord_stem (note_chord n) = None then 0
                             else if placeAbove (fingering (baseLayout env sc))
                             then - (0.8 * spatium (fingering (baseLayout env sc)))
                             else 0.8 * spatium (fingering (baseLayout env sc))),
                    py = (if placeAbove (fingering (baseLayout env sc))
                          then - (1.5 * spatium (fingering (baseLayout env sc)))
                          else 1.5 * spatium (fingering (baseLayout env sc)))\<rparr>,
                 autoplace := True, offsetChanged := NONE\<rparr>\<rparr>)"
    by (rule layout_tight [OF assms t])
next
  assume t: "tight (baseLayout env sc) n"
  let ?env' = "env\<lparr>rebaseOffset := ro, rebaseMinDistance := rmd,
                           SkylineLine_add := skAdd, SkylineLine_minDistance := skDist\<rparr>"
  have "layout ?env' sc = layout env sc"
    unfolding layout_tight [of sc ?env' n, unfolded baseLayout_env, OF assms t]
      layout_tight [OF assms t] ..
  then show "layout (env\<lparr>rebaseOffset := ro, rebaseMinDistance := rmd,
                           SkylineLine_add := skAdd, SkylineLine_minDistance := skDist\<rparr>) sc
                = layout env sc" .
qed

theorem C3_tight_mode_witness:
  "\<not> tabFingeringHidden ex_score
   \<and> autoplace (fingering (baseLayout ex_env ex_score))
   \<and> Fingering_note ex_score = Some ex_note
   \<and> layoutType (fingering (baseLayout ex_env ex_score)) = CHORD
   \<and> tight (baseLayout ex_env ex_score) ex_note
   \<and> layout ex_env ex_score =
       Inr (ex_score\<lparr>fingering := ex_fingering
         \<lparr>ipos := \<lparr>px = - (3 / 10), py = - (3 / 2)\<rparr>,
          bbox := \<lparr>rect_x = 0, rect_y = - 2, rect_w = 1, rect_h = 2\<rparr>\<rparr>\<rparr>)
   \<and> layout ex_env_probe ex_score = layout ex_env ex_score"
proof -
  have h1: "\<not> tabFingeringHidden ex_score"
    by (simp add: tabFingeringHidden_def explicitParent_def ex_score_def ex_staff_def Let_def)
  have h2: "autoplace (fingering (baseLayout ex_env ex_score))"
    by (simp add: baseLayout_def state_defs ex_env_def ex_score_def ex_fingering_def)
  have h3: "Fingering_note ex_score = Some ex_note"
    by (simp add: Fingering_note_def ex_score_def)
  have h4: "layoutType (fingering (baseLayout ex_env ex_score)) = CHORD"
    by (simp add: layoutType_def baseLayout_def state_defs ex_env_def ex_score_def
        ex_fingering_def)
  have p: "ex_env_probe = ex_env\<lparr>rebaseOffset := rebaseOffset ex_env,
      rebaseMinDistance := rebaseMinDistance ex_env_probe,
      SkylineLine_add := SkylineLine_add ex_env,
      SkylineLine_minDistance := SkylineLine_minDistance ex_env\<rparr>"
    by (simp add: ex_env_probe_def)
  note c = C3_tight_mode [OF h1 h2 h3 h4, where ro = "rebaseOffset ex_env"
      and rmd = "rebaseMinDistance ex_env_probe" and skAdd = "SkylineLine_add ex_env"
      and skDist = "SkylineLine_minDistance ex_env", folded p]
  have t: "tight (baseLayout ex_env ex_score) ex_note"
    by (simp add: tight_def hasVoicesAt_def baseLayout_def state_defs ex_defs Let_def)
  from c t have "layout ex_env_probe ex_score = layout ex_env ex_score" by blast
  moreover have "layout ex_env ex_score =
       Inr (ex_score\<lparr>fingering := ex_fingering
         \<lparr>ipos := \<lparr>px = - (3 / 10), py = - (3 / 2)\<rparr>,
          bbox := \<lparr>rect_x = 0, rect_y = - 2, rect_w = 1, rect_h = 2\<rparr>\<rparr>\<rparr>)"
    by (simp add: ex_defs state_defs geometry_defs layout_defs Let_def)
  ultimately show ?thesis using h1 h2 h3 h4 t by simp
qed

text \<open>
  The claim as the specification words it (half a staff space horizontally) fails on a
  tight, stemmed chord placed above with a staff space of 1 and a note head of width 1:
  after the centring by half the head width, the shift towards the left is 0.8, not 0.5.
\<close>

theorem C3_counterexample:
  "autoplace (fingering (baseLayout ex_env ex_score))
   \<and> Fingering_note ex_score = Some ex_note
   \<and> layoutType (fingering (baseLayout ex_env ex_score)) = CHORD
   \<and> tight (baseLayout ex_env ex_score) ex_note
   \<and> chord_stem (note_chord ex_note) \<noteq> None
   \<and> spatium (fingering (baseLayout ex_env ex_score)) = 1
   \<and> px (ipos (fingering (baseLayout ex_env ex_score))) = 0
   \<and> note_bboxRightPos ex_note = 1
   \<and> px (ipos (fingering (projr (layout ex_env ex_score)))) = 0 + 1 * 0.5 - 0.8 * 1
   \<and> px (ipos (fingering (projr (layout ex_env ex_score)))) \<noteq> 0 + 1 * 0.5 - 0.5 * 1"
  by (simp add: ex_defs state_defs geometry_defs layout_defs Let_def)

subsection \<open>The flags after a call\<close>

text \<open>
  C10. A call that takes the early return of the tablature staff returns with the
  offset-changed flag (and the autoplace flag) as they were. Every other call that returns
  ends with the offset-changed flag reset to \<open>NONE\<close>. The autoplace flag after a call
  is the one before it, given that \<^verbatim>\<open>TextBase::layout()\<close> and \<^verbatim>\<open>rebaseOffset(false)\<close>, which
  are not among the sources, leave that flag alone: line 235 undoes line 134. The call
  returns whenever \<^verbatim>\<open>staff()\<close> is not null.
\<close>

theorem C10_flags_after_layout:
  assumes "\<forall>s. autoplace (TextBase_layout env s) = autoplace (fingering s)"
    and "\<forall>s. autoplace (snd (rebaseOffset env False s)) = autoplace (fingering s)"
  shows "(tabFingeringHidden sc \<longrightarrow>
            (\<exists>sc'. layout env sc = Inr sc'
                 \<and> offsetChanged (fingering sc') = offsetChanged (fingering sc)
                 \<and> autoplace (fingering sc') = autoplace (fingering sc)))
       \<and> (\<forall>sc'. layout env sc = Inr sc' \<longrightarrow>
            (\<not> tabFingeringHidden sc \<longrightarrow> offsetChanged (fingering sc') = NONE)
            \<and> autoplace (fingering sc') = autoplace (fingering sc))
       \<and> (staff sc \<noteq> None \<longrightarrow> (\<exists>sc'. layout env sc = Inr sc'))"
proof -
  have b: "autoplace (fingering (baseLayout env sc)) = autoplace (fingering sc)"
    using assms(1) by (simp add: baseLayout_def rypos_set_def call_TextBase_layout_def)
  have tab: "\<exists>sc'. layout env sc = Inr sc'
                 \<and> offsetChanged (fingering sc') = offsetChanged (fingering sc)
                 \<and> autoplace (fingering sc') = autoplace (fingering sc)"
    if "tabFingeringHidden sc"
    using that by (simp add: layout_tab setbbox_def)
  have ret: "(\<not> tabFingeringHidden sc \<longrightarrow> offsetChanged (fingering sc') = NONE)
            \<and> autoplace (fingering sc') = autoplace (fingering sc)"
    if l: "layout env sc = Inr sc'" for sc'
  proof (cases "tabFingeringHidden sc")
    case True
    with l have "sc' = setbbox RectF_null sc" by (simp add: layout_tab)
    with True show ?thesis by (simp add: setbbox_def)
  next
    case nt: False
    show ?thesis
    proof (cases "autoplace (fingering (baseLayout env sc))
                  \<and> Fingering_note (baseLayout env sc) \<noteq> None")
      case True
      then obtain n where n: "Fingering_note (baseLayout env sc) = Some n" by blast
      from True have a: "autoplace (fingering (baseLayout env sc))" by simp
      from l layout_autoplace [OF nt a n]
      obtain s where s: "layoutAutoplace env (baseLayout env sc) n = Inr s"
        and sc': "sc' = setOffsetChanged False s"
        by (cases "layoutAutoplace env (baseLayout env sc) n") auto
      from layoutAutoplace_flags [OF s] a b sc' nt show ?thesis
        by (simp add: setOffsetChanged_def)
    next
      case False
      from l layout_no_autoplace [OF nt False]
      have "sc' = setOffsetChanged False
                 (if offsetChanged (fingering (baseLayout env sc)) \<noteq> NONE
                  then snd (call_rebaseOffset env False (baseLayout env sc))
                  else baseLayout env sc)" by simp
      with b assms(2) nt show ?thesis
        by (simp add: setOffsetChanged_def call_rebaseOffset_def)
    qed
  qed
  from tab ret layout_returns show ?thesis by blast
qed

theorem C10_flags_after_layout_witness:
  "(\<forall>s. autoplace (TextBase_layout ex_env s) = autoplace (fingering s))
   \<and> (\<forall>s. autoplace (snd (rebaseOffset ex_env False s)) = autoplace (fingering s))
   \<and> tabFingeringHidden ex_score_tab
   \<and> offsetChanged (fingering ex_score_tab) = ABSOLUTE_OFFSET
   \<and> layout ex_env ex_score_tab = Inr (setbbox RectF_null ex_score_tab)
   \<and> offsetChanged (fingering (setbbox RectF_null ex_score_tab)) = ABSOLUTE_OFFSET
   \<and> \<not> tabFingeringHidden ex_score_moved
   \<and> offsetChanged (fingering ex_score_moved) = ABSOLUTE_OFFSET
   \<and> autoplace (fingering ex_score_moved)
   \<and> \<not> isl (layout ex_env ex_score_moved)
   \<and> offsetChanged (fingering (projr (layout ex_env ex_score_moved))) = NONE
   \<and> autoplace (fingering (projr (layout ex_env ex_score_moved)))"
proof -
  have h1: "\<forall>s. autoplace (TextBase_layout ex_env s) = autoplace (fingering s)"
    by (simp add: ex_env_def)
  have h2: "\<forall>s. autoplace (snd (rebaseOffset ex_env False s)) = autoplace (fingering s)"
    by (simp add: ex_env_def)
  have t: "tabFingeringHidden ex_score_tab"
    by (simp add: tabFingeringHidden_def explicitParent_def ex_score_tab_def ex_score_def
        Let_def)
  have nt: "\<not> tabFingeringHidden ex_score_moved"
    by (simp add: tabFingeringHidden_def explicitParent_def ex_score_moved_def ex_score_def
        ex_staff_def Let_def)
  have st: "staff ex_score_moved \<noteq> None"
    by (simp add: ex_score_moved_def ex_score_def)
  have f: "offsetChanged (fingering ex_score_tab) = ABSOLUTE_OFFSET"
      "offsetChanged (fingering ex_score_moved) = ABSOLUTE_OFFSET"
      "autoplace (fingering ex_score_moved)"
    by (simp_all add: ex_score_tab_def ex_score_moved_def ex_score_def ex_fingering_def)
  from C10_flags_after_layout [OF h1 h2, of ex_score_moved] nt st
  obtain sc' where l: "layout ex_env ex_score_moved = Inr sc'"
    and "offsetChanged (fingering sc') = NONE"
    and "autoplace (fingering sc') = autoplace (fingering ex_score_moved)"
    by blast
  with f have m: "\<not> isl (layout ex_env ex_score_moved)"
      "offsetChanged (fingering (projr (layout ex_env ex_score_moved))) = NONE"
      "autoplace (fingering (projr (layout ex_env ex_score_moved)))"
    by simp_all
  have "layout ex_env ex_score_tab = Inr (setbbox RectF_null ex_score_tab)"
    using t by (rule layout_tab)
  moreover have "offsetChanged (fingering (setbbox RectF_null ex_score_tab)) = ABSOLUTE_OFFSET"
    using f(1) by (simp add: setbbox_def)
  ultimately show ?thesis using h1 h2 t nt f m by simp
qed

subsection \<open>The left-hand guitar fingering\<close>

text \<open>
  C9. For a fingering of the left-hand guitar style (as read at line 136) with autoplace on
  and an anchor note, the layout type is \<open>NOTE\<close>, and the call returns the state of line
  136 with the fingering moved to the left: by the left extent of the note's shape when
  that extent exceeds the note's own x, by the note's x otherwise. The vertical position
  is left as it is (0 when the user has not moved the fingering), autoplace is on again
  and the offset-changed flag is reset. No vertical collision avoidance takes part: the
  result is the same whatever \<^verbatim>\<open>rebaseMinDistance\<close>, \<^verbatim>\<open>SkylineLine::add\<close> and
  \<^verbatim>\<open>SkylineLine::minDistance\<close> are.
\<close>

theorem C9_left_hand_guitar:
  assumes "\<not> tabFingeringHidden sc"
    and "autoplace (fingering (baseLayout env sc))"
    and "Fingering_note sc = Some n"
    and "textStyleType (fingering (stateAtDispatch env sc n)) = LH_GUITAR_FINGERING"
  shows "layoutType (fingering (stateAtDispatch env sc n)) = NOTE
       \<and> layout env sc =
           Inr ((stateAtDispatch env sc n)\<lparr>fingering := (fingering (stateAtDispatch env sc n))
             \<lparr>ipos :=
                \<lparr>px = px (ipos (fingering (stateAtDispatch env sc n)))
                       - (if note_shape_left n > note_x n then note_shape_left n else note_x n),
                 py = py (ipos (fingering (stateAtDispatch env sc n)))\<rparr>,
              autoplace := True, offsetChanged := NONE\<rparr>\<rparr>)
       \<and> (offsetChanged (fingering (baseLayout env sc)) = NONE \<longrightarrow>
            py (ipos (fingering (stateAtDispatch env sc n))) = 0)
       \<and> layout (env\<lparr>rebaseMinDistance := rmd, SkylineLine_add := skAdd,
                      SkylineLine_minDistance := skDist\<rparr>) sc
           = layout env sc"
proof (intro conjI impI)
  show "layoutType (fingering (stateAtDispatch env sc n)) = NOTE"
    using assms(4) by (simp add: layoutType_def)
next
  show "layout env sc =
           Inr ((stateAtDispatch env sc n)\<lparr>fingering := (fingering (stateAtDispatch env sc n))
             \<lparr>ipos :=
                \<lparr>px = px (ipos (fingering (stateAtDispatch env sc n)))
                       - (if note_shape_left n > note_x n then note_shape_left n else note_x n),
                 py = py (ipos (fingering (stateAtDispatch env sc n)))\<rparr>,
              autoplace := True, offsetChanged := NONE\<rparr>\<rparr>)"
    by (rule layout_left_of_note [OF assms])
next
  assume "offsetChanged (fingering (baseLayout env sc)) = NONE"
  then show "py (ipos (fingering (stateAtDispatch env sc n))) = 0"
    by (simp add: stateAtDispatch_def excludeSelf_def setAutoplace_def baseLayout_py Let_def)
next
  let ?env' = "env\<lparr>rebaseMinDistance := rmd, SkylineLine_add := skAdd,
                      SkylineLine_minDistance := skDist\<rparr>"
  have "layout ?env' sc = layout env sc"
    unfolding layout_left_of_note [of sc ?env' n, unfolded baseLayout_env3 stateAtDispatch_env,
        OF assms]
      layout_left_of_note [OF assms] ..
  then show "layout (env\<lparr>rebaseMinDistance := rmd, SkylineLine_add := skAdd,
                      SkylineLine_minDistance := skDist\<rparr>) sc
           = layout env sc" .
qed

theorem C9_left_hand_guitar_witness:
  "\<not> tabFingeringHidden ex_score_guitar
   \<and> autoplace (fingering (baseLayout ex_env ex_score_guitar))
   \<and> Fingering_note ex_score_guitar = Some (ex_note\<lparr>note_shape_left := 0.3\<rparr>)
   \<and> textStyleType (fingering (stateAtDispatch ex_env ex_score_guitar
         (ex_note\<lparr>note_shape_left := 0.3\<rparr>))) = LH_GUITAR_FINGERING
   \<and> offsetChanged (fingering (baseLayout ex_env ex_score_guitar)) = NONE
   \<and> layoutType (fingering (stateAtDispatch ex_env ex_score_guitar
         (ex_note\<lparr>note_shape_left := 0.3\<rparr>))) = NOTE
   \<and> layout ex_env ex_score_guitar =
       Inr (ex_score_guitar\<lparr>fingering := (fingering ex_score_guitar)
         \<lparr>ipos := \<lparr>px = - 0.3, py = 0\<rparr>,
          bbox := \<lparr>rect_x = 0, rect_y = - 2, rect_w = 1, rect_h = 2\<rparr>\<rparr>\<rparr>)
   \<and> layout ex_env_probe ex_score_guitar = layout ex_env ex_score_guitar"
proof -
  let ?n = "ex_note\<lparr>note_shape_left := 0.3\<rparr>"
  have h1: "\<not> tabFingeringHidden ex_score_guitar"
    by (simp add: tabFingeringHidden_def explicitParent_def ex_score_guitar_def ex_score_def
        ex_staff_def Let_def)
  have h2: "autoplace (fingering (baseLayout ex_env ex_score_guitar))"
    by (simp add: baseLayout_def state_defs ex_env_def ex_score_guitar_def ex_score_def
        ex_fingering_def)
  have h3: "Fingering_note ex_score_guitar = Some ?n"
    by (simp add: Fingering_note_def ex_score_guitar_def ex_score_def)
  have h4: "textStyleType (fingering (stateAtDispatch ex_env ex_score_guitar ?n))
      = LH_GUITAR_FINGERING"
    by (simp add: stateAtDispatch_def excludeSelf_def baseLayout_def state_defs ex_env_def
        ex_score_guitar_def ex_score_def ex_fingering_def Let_def)
  have h5: "offsetChanged (fingering (baseLayout ex_env ex_score_guitar)) = NONE"
    by (simp add: baseLayout_def state_defs ex_env_def ex_score_guitar_def ex_score_def
        ex_fingering_def)
  have p: "ex_env_probe = ex_env\<lparr>rebaseMinDistance := rebaseMinDistance ex_env_probe,
      SkylineLine_add := SkylineLine_add ex_env,
      SkylineLine_minDistance := SkylineLine_minDistance ex_env\<rparr>"
    by (simp add: ex_env_probe_def)
  note c = C9_left_hand_guitar [OF h1 h2 h3 h4,
      where rmd = "rebaseMinDistance ex_env_probe" and skAdd = "SkylineLine_add ex_env"
      and skDist = "SkylineLine_minDistance ex_env", folded p]
  from c have t: "layoutType (fingering (stateAtDispatch ex_env ex_score_guitar ?n)) = NOTE"
    and e: "layout ex_env_probe ex_score_guitar = layout ex_env ex_score_guitar"
    by blast+
  have "layout ex_env ex_score_guitar =
       Inr (ex_score_guitar\<lparr>fingering := (fingering ex_score_guitar)
         \<lparr>ipos := \<lparr>px = - 0.3, py = 0\<rparr>,
          bbox := \<lparr>rect_x = 0, rect_y = - 2, rect_w = 1, rect_h = 2\<rparr>\<rparr>\<rparr>)"
    by (simp add: ex_defs state_defs geometry_defs layout_defs Let_def)
  with h1 h2 h3 h4 h5 t e show ?thesis by simp
qed

subsection \<open>The skyline query and the rebase\<close>

text \<open>
  C4 (as the code has it). On the chord path that is not tight, with \<open>s\<close> the state at
  line 150: the distance \<open>d\<close> is the one between the fingering's own profile (the lower
  edge of its box in system coordinates when placing above, the upper edge when placing
  below) and the north profile of the Staff Skyline when placing above, the south profile
  when placing below. The shift \<^verbatim>\<open>yd\<close> is, away from the staff (negative above, positive
  below), the push of the specification, \<open>d + 0.25 * height\<close> when \<open>d > 0\<close> and the minimum
  distance is styled and 0 otherwise, plus the shortfall that the forced space above or
  below staff and chord still leaves after that push (lines 174-177 and 210-213); so the
  push is exactly \<open>d + 0.25 * height\<close> only where that shortfall is not positive. That
  \<^verbatim>\<open>yd\<close> goes through the rebase of lines 178-183 or 214-219, which may rewrite it; when
  the user has not moved the fingering, it is the final vertical position.
\<close>

theorem C4_skyline_push:
  assumes "\<not> tabFingeringHidden sc"
    and "autoplace (fingering (baseLayout env sc))"
    and "Fingering_note sc = Some n"
    and "layoutType (fingering (stateAtDispatch env sc n)) = CHORD"
    and "\<not> tight (baseLayout env sc) n"
    and "s = stateAtPlacement env sc n"
    and "md = minDistance (fingering s) * spatium (fingering s)"
    and "yd = (if placeAbove (fingering s) then ydAbove env s n md else ydBelow env s n md)"
  shows "distanceAbove env s n =
           SkylineLine_minDistance env
             (SkylineLine_add env (SkylineLine_new False) (rect_x (systemRect s n))
                (rect_bottom (systemRect s n)) (rect_width (systemRect s n)))
             (north (sysstaff_skyline (chord_sysStaff (note_chord n))))
       \<and> distanceBelow env s n =
           SkylineLine_minDistance env
             (south (sysstaff_skyline (chord_sysStaff (note_chord n))))
             (SkylineLine_add env (SkylineLine_new True) (rect_x (systemRect s n))
                (rect_top (systemRect s n)) (rect_width (systemRect s n)))
       \<and> ydAbove env s n md =
           - spec_skylinePush (distanceAbove env s n) (minDistanceStyled (fingering s))
               (height (fingering s))
           - max 0 (rect_bottom (bbox (fingering s)) + py (ipos (fingering s))
                    - spec_skylinePush (distanceAbove env s n) (minDistanceStyled (fingering s))
                        (height (fingering s))
                    + note_y n - forcedTop (note_chord n) md)
       \<and> ydBelow env s n md =
           spec_skylinePush (distanceBelow env s n) (minDistanceStyled (fingering s))
               (height (fingering s))
           + max 0 (forcedBottom (note_chord n) md
                    - (rect_top (bbox (fingering s)) + py (ipos (fingering s))
                       + spec_skylinePush (distanceBelow env s n) (minDistanceStyled (fingering s))
                           (height (fingering s))
                       + note_y n))
       \<and> layout env sc =
           (case rebaseAndShift env s n (placeAbove (fingering s)) md yd (spatium (fingering s))
                   (rebaseAtDispatch env sc n) of
              Inl e \<Rightarrow> Inl e
            | Inr s' \<Rightarrow> Inr (setOffsetChanged False (setAutoplace True s')))
       \<and> (offsetChanged (fingering (baseLayout env sc)) = NONE \<longrightarrow>
            layout env sc =
              Inr (s\<lparr>fingering := (fingering s)
                \<lparr>ipos := \<lparr>px = px (ipos (fingering s)), py = yd\<rparr>,
                 autoplace := True, offsetChanged := NONE\<rparr>\<rparr>))"
proof (intro conjI impI)
  show "distanceAbove env s n =
           SkylineLine_minDistance env
             (SkylineLine_add env (SkylineLine_new False) (rect_x (systemRect s n))
                (rect_bottom (systemRect s n)) (rect_width (systemRect s n)))
             (north (sysstaff_skyline (chord_sysStaff (note_chord n))))"
    by (simp add: distanceAbove_def Let_def)
next
  show "distanceBelow env s n =
           SkylineLine_minDistance env
             (south (sysstaff_skyline (chord_sysStaff (note_chord n))))
             (SkylineLine_add env (SkylineLine_new True) (rect_x (systemRect s n))
                (rect_top (systemRect s n)) (rect_width (systemRect s n)))"
    by (simp add: distanceBelow_def Let_def)
next
  show "ydAbove env s n md =
           - spec_skylinePush (distanceAbove env s n) (minDistanceStyled (fingering s))
               (height (fingering s))
           - max 0 (rect_bottom (bbox (fingering s)) + py (ipos (fingering s))
                    - spec_skylinePush (distanceAbove env s n) (minDistanceStyled (fingering s))
                        (height (fingering s))
                    + note_y n - forcedTop (note_chord n) md)"
    by (rule ydAbove_push)
next
  show "ydBelow env s n md =
           spec_skylinePush (distanceBelow env s n) (minDistanceStyled (fingering s))
               (height (fingering s))
           + max 0 (forcedBottom (note_chord n) md
                    - (rect_top (bbox (fingering s)) + py (ipos (fingering s))
                       + spec_skylinePush (distanceBelow env s n) (minDistanceStyled (fingering s))
                           (height (fingering s))
                       + note_y n))"
    by (rule ydBelow_push)
next
  show l: "layout env sc =
           (case rebaseAndShift env s n (placeAbove (fingering s)) md yd (spatium (fingering s))
                   (rebaseAtDispatch env sc n) of
              Inl e \<Rightarrow> Inl e
            | Inr s' \<Rightarrow> Inr (setOffsetChanged False (setAutoplace True s')))"
    unfolding assms(6,7,8)
    by (rule layout_not_tight [OF assms(1-5)])
  assume o: "offsetChanged (fingering (baseLayout env sc)) = NONE"
  have d: "stateAtDispatch env sc n = setAutoplace False (baseLayout env sc)"
    using o by (simp add: stateAtDispatch_def excludeSelf_def Let_def)
  have o': "offsetChanged (fingering s) = NONE"
    using o unfolding assms(6) stateAtPlacement_def d
    by (simp add: centreOnHead_def setAutoplace_def rxpos_add_def rxpos_sub_def Let_def)
  have y: "py (ipos (fingering s)) = 0"
    unfolding assms(6) stateAtPlacement_def d
    by (simp add: centreOnHead_def setAutoplace_def rxpos_add_def rxpos_sub_def Let_def
        baseLayout_py)
  have "rebaseAndShift env s n (placeAbove (fingering s)) md yd (spatium (fingering s))
          (rebaseAtDispatch env sc n) = Inr (rypos_add yd s)"
    using o' by (simp add: rebaseAndShift_def Let_def)
  with l y show "layout env sc =
              Inr (s\<lparr>fingering := (fingering s)
                \<lparr>ipos := \<lparr>px = px (ipos (fingering s)), py = yd\<rparr>,
                 autoplace := True, offsetChanged := NONE\<rparr>\<rparr>)"
    by (simp add: rypos_add_def setAutoplace_def setOffsetChanged_def)
qed

theorem C4_skyline_push_witness:
  "\<not> tabFingeringHidden ex_score_near
   \<and> autoplace (fingering (baseLayout ex_env ex_score_near))
   \<and> Fingering_note ex_score_near = Some ex_note_near
   \<and> layoutType (fingering (stateAtDispatch ex_env ex_score_near ex_note_near)) = CHORD
   \<and> \<not> tight (baseLayout ex_env ex_score_near) ex_note_near
   \<and> offsetChanged (fingering (baseLayout ex_env ex_score_near)) = NONE
   \<and> placeAbove (fingering (stateAtPlacement ex_env ex_score_near ex_note_near))
   \<and> minDistanceStyled (fingering (stateAtPlacement ex_env ex_score_near ex_note_near))
   \<and> height (fingering (stateAtPlacement ex_env ex_score_near ex_note_near)) = 2
   \<and> distanceAbove ex_env (stateAtPlacement ex_env ex_score_near ex_note_near) ex_note_near
        = 0.25
   \<and> ydAbove ex_env (stateAtPlacement ex_env ex_score_near ex_note_near) ex_note_near
        (0.5 * 1) = - (0.25 + 0.25 * 2) - 0.75
   \<and> layout ex_env ex_score_near =
       Inr (ex_score_near\<lparr>fingering := (fingering ex_score_near)
         \<lparr>ipos := \<lparr>px = 0.5, py = - (0.25 + 0.25 * 2) - 0.75\<rparr>,
          bbox := \<lparr>rect_x = 0, rect_y = - 2, rect_w = 1, rect_h = 2\<rparr>\<rparr>\<rparr>)"
proof -
  let ?s = "stateAtPlacement ex_env ex_score_near ex_note_near"
  have h1: "\<not> tabFingeringHidden ex_score_near"
    by (simp add: tabFingeringHidden_def explicitParent_def ex_score_near_def
        ex_score_string_def ex_score_def ex_staff_def Let_def)
  have h2: "autoplace (fingering (baseLayout ex_env ex_score_near))"
    by (simp add: baseLayout_def state_defs ex_env_def ex_score_near_def ex_score_string_def
        ex_score_def ex_fingering_def)
  have h3: "Fingering_note ex_score_near = Some ex_note_near"
    by (simp add: Fingering_note_def ex_score_near_def)
  have h4: "layoutType (fingering (stateAtDispatch ex_env ex_score_near ex_note_near)) = CHORD"
    by (simp add: layoutType_def stateAtDispatch_def excludeSelf_def baseLayout_def state_defs
        ex_env_def ex_score_near_def ex_score_string_def ex_score_def ex_fingering_def Let_def)
  have h5: "\<not> tight (baseLayout ex_env ex_score_near) ex_note_near"
    by (simp add: tight_def baseLayout_def state_defs ex_env_def ex_score_near_def
        ex_score_string_def ex_score_def ex_fingering_def Let_def)
  have h6: "offsetChanged (fingering (baseLayout ex_env ex_score_near)) = NONE"
    by (simp add: baseLayout_def state_defs ex_env_def ex_score_near_def ex_score_string_def
        ex_score_def ex_fingering_def)
  have s: "?s = ex_score_near\<lparr>fingering := (fingering ex_score_near)
         \<lparr>ipos := \<lparr>px = 0.5, py = 0\<rparr>,
          bbox := \<lparr>rect_x = 0, rect_y = - 2, rect_w = 1, rect_h = 2\<rparr>,
          autoplace := False\<rparr>\<rparr>"
    by (simp add: Note_withSkyline_def ex_defs state_defs layout_defs Let_def)
  have a: "placeAbove (fingering ?s)" and m: "minDistanceStyled (fingering ?s)"
    and h: "height (fingering ?s) = 2"
    and md: "minDistance (fingering ?s) * spatium (fingering ?s) = 0.5 * 1"
    unfolding s
    by (simp_all add: placeAbove_def height_def rect_height_def ex_score_near_def
        ex_score_string_def ex_score_def ex_fingering_def)
  have d: "distanceAbove ex_env ?s ex_note_near = 0.25"
    unfolding s
    by (simp add: Note_withSkyline_def ex_defs geometry_defs layout_defs Let_def)
  have t: "forcedTop (note_chord ex_note_near) (0.5 * 1) = - 0.5"
    by (simp add: forcedTop_def Note_withSkyline_def ex_defs geometry_defs Let_def)
  have b: "rect_bottom (bbox (fingering ?s)) = 0" "py (ipos (fingering ?s)) = 0"
    "px (ipos (fingering ?s)) = 0.5" "note_y ex_note_near = 1"
    unfolding s
    by (simp_all add: rect_bottom_def ex_note_near_def Note_withSkyline_fields ex_note_def)
  note c = C4_skyline_push [OF h1 h2 h3 h4 h5 refl refl refl, unfolded md]
  from c have "ydAbove ex_env ?s ex_note_near (0.5 * 1) =
           - spec_skylinePush (distanceAbove ex_env ?s ex_note_near)
               (minDistanceStyled (fingering ?s)) (height (fingering ?s))
           - max 0 (rect_bottom (bbox (fingering ?s)) + py (ipos (fingering ?s))
                    - spec_skylinePush (distanceAbove ex_env ?s ex_note_near)
                        (minDistanceStyled (fingering ?s)) (height (fingering ?s))
                    + note_y ex_note_near - forcedTop (note_chord ex_note_near) (0.5 * 1))"
    by blast
  then have y: "ydAbove ex_env ?s ex_note_near (0.5 * 1) = - (0.25 + 0.25 * 2) - 0.75"
    unfolding d h t b using m by (simp add: spec_skylinePush_def)
  from c h6 have "layout ex_env ex_score_near =
      Inr (?s\<lparr>fingering := (fingering ?s)
        \<lparr>ipos := \<lparr>px = px (ipos (fingering ?s)),
                  py = (if placeAbove (fingering ?s)
                        then ydAbove ex_env ?s ex_note_near (0.5 * 1)
                        else ydBelow ex_env ?s ex_note_near (0.5 * 1))\<rparr>,
         autoplace := True, offsetChanged := NONE\<rparr>\<rparr>)"
    by blast
  then have "layout ex_env ex_score_near =
      Inr (?s\<lparr>fingering := (fingering ?s)
        \<lparr>ipos := \<lparr>px = 0.5, py = - (0.25 + 0.25 * 2) - 0.75\<rparr>,
         autoplace := True, offsetChanged := NONE\<rparr>\<rparr>)"
    unfolding y b using a by simp
  also have "?s\<lparr>fingering := (fingering ?s)
        \<lparr>ipos := \<lparr>px = 0.5, py = - (0.25 + 0.25 * 2) - 0.75\<rparr>,
         autoplace := True, offsetChanged := NONE\<rparr>\<rparr> =
      ex_score_near\<lparr>fingering := (fingering ex_score_near)
         \<lparr>ipos := \<lparr>px = 0.5, py = - (0.25 + 0.25 * 2) - 0.75\<rparr>,
          bbox := \<lparr>rect_x = 0, rect_y = - 2, rect_w = 1, rect_h = 2\<rparr>\<rparr>\<rparr>"
    unfolding s
    by (simp add: ex_score_near_def ex_score_string_def ex_score_def ex_fingering_def)
  finally have "layout ex_env ex_score_near =
       Inr (ex_score_near\<lparr>fingering := (fingering ex_score_near)
         \<lparr>ipos := \<lparr>px = 0.5, py = - (0.25 + 0.25 * 2) - 0.75\<rparr>,
          bbox := \<lparr>rect_x = 0, rect_y = - 2, rect_w = 1, rect_h = 2\<rparr>\<rparr>\<rparr>)" .
  with h1 h2 h3 h4 h5 h6 a m h d y show ?thesis by simp
qed

text \<open>
  The claim as the specification words it (pushed by exactly \<open>d + 0.25 * height\<close>) fails
  on a string number placed above, not moved by the user, with the minimum distance styled,
  a box of height 2 and the north profile a quarter of a staff space above the lower edge of
  that box: \<open>d = 0.25\<close>, the push of lines 162-164 is 0.75, the forced space of lines
  174-177 adds 0.75, and the fingering ends 1.5 above its base position.
\<close>

theorem C4_counterexample:
  "autoplace (fingering (baseLayout ex_env ex_score_near))
   \<and> Fingering_note ex_score_near = Some ex_note_near
   \<and> layoutType (fingering (stateAtDispatch ex_env ex_score_near ex_note_near)) = CHORD
   \<and> \<not> tight (baseLayout ex_env ex_score_near) ex_note_near
   \<and> offsetChanged (fingering (baseLayout ex_env ex_score_near)) = NONE
   \<and> placeAbove (fingering (stateAtPlacement ex_env ex_score_near ex_note_near))
   \<and> minDistanceStyled (fingering (stateAtPlacement ex_env ex_score_near ex_note_near))
   \<and> height (fingering (stateAtPlacement ex_env ex_score_near ex_note_near)) = 2
   \<and> distanceAbove ex_env (stateAtPlacement ex_env ex_score_near ex_note_near) ex_note_near
        = 0.25
   \<and> py (ipos (fingering (stateAtPlacement ex_env ex_score_near ex_note_near))) = 0
   \<and> py (ipos (fingering (projr (layout ex_env ex_score_near)))) = - 1.5
   \<and> py (ipos (fingering (projr (layout ex_env ex_score_near)))) \<noteq> 0 - (0.25 + 0.25 * 2)"
  by (simp add: Note_withSkyline_def ex_defs state_defs geometry_defs layout_defs Let_def)

text \<open>
  C8. On the chord path that is not tight, placing below, when the user has moved the
  fingering and \<^verbatim>\<open>staff()\<close> is \<open>st\<close>: the conditional of line 217, whose condition
  \<^verbatim>\<open>above\<close> is false there, evaluates to \<open>r.top() + rebase < st->height()\<close>, where \<open>r\<close> is
  the box of the fingering in system coordinates at the state \<open>s\<close> of line 150 (after
  \<^verbatim>\<open>rebaseOffset()\<close>, before \<^verbatim>\<open>rebaseMinDistance\<close> and before \<^verbatim>\<open>yd\<close> is applied); and
  \<^verbatim>\<open>rebaseMinDistance\<close> is called with that value as its last argument.
\<close>

theorem C8_inStaff_below:
  assumes "\<not> tabFingeringHidden sc"
    and "autoplace (fingering (baseLayout env sc))"
    and "Fingering_note sc = Some n"
    and "layoutType (fingering (stateAtDispatch env sc n)) = CHORD"
    and "\<not> tight (baseLayout env sc) n"
    and "s = stateAtPlacement env sc n"
    and "\<not> placeAbove (fingering s)"
    and "offsetChanged (fingering s) \<noteq> NONE"
    and "staff sc = Some st"
    and "md = minDistance (fingering s) * spatium (fingering s)"
    and "rebase = rebaseAtDispatch env sc n"
    and "res = call_rebaseMinDistance env md (ydBelow env s n md) (spatium (fingering s)) rebase
                 False (rect_top (systemRect s n) + rebase < staff_height st) s"
  shows "inStaff s (placeAbove (fingering s)) (systemRect s n) rebase
           = Inr (rect_top (systemRect s n) + rebase < staff_height st)
       \<and> layout env sc =
           Inr (setOffsetChanged False (setAutoplace True (rypos_add (snd (fst res)) (snd res))))"
proof -
  have st: "staff s = Some st"
    unfolding assms(6) using assms(9) by (simp add: stateAtPlacement_staff)
  have i: "inStaff s (placeAbove (fingering s)) (systemRect s n) rebase
           = Inr (rect_top (systemRect s n) + rebase < staff_height st)"
    using assms(7) st by (simp add: inStaff_def)
  have "rebaseAndShift env s n (placeAbove (fingering s)) md (ydBelow env s n md)
          (spatium (fingering s)) rebase = Inr (rypos_add (snd (fst res)) (snd res))"
    using assms(7) assms(8) i unfolding assms(12)
    by (simp add: rebaseAndShift_def Let_def)
  with layout_not_tight [OF assms(1-5), folded assms(6), folded assms(10), folded assms(11)]
    assms(7) i
  show ?thesis by simp
qed

theorem C8_inStaff_below_witness:
  "\<not> tabFingeringHidden ex_score_moved
   \<and> autoplace (fingering (baseLayout ex_env_probe ex_score_moved))
   \<and> Fingering_note ex_score_moved = Some ex_note
   \<and> layoutType (fingering (stateAtDispatch ex_env_probe ex_score_moved ex_note)) = CHORD
   \<and> \<not> tight (baseLayout ex_env_probe ex_score_moved) ex_note
   \<and> \<not> placeAbove (fingering (stateAtPlacement ex_env_probe ex_score_moved ex_note))
   \<and> offsetChanged (fingering (stateAtPlacement ex_env_probe ex_score_moved ex_note)) \<noteq> NONE
   \<and> staff ex_score_moved = Some ex_staff
   \<and> rebaseAtDispatch ex_env_probe ex_score_moved ex_note = 0
   \<and> rect_top (systemRect (stateAtPlacement ex_env_probe ex_score_moved ex_note) ex_note) = - 1
   \<and> staff_height ex_staff = 4
   \<and> inStaff (stateAtPlacement ex_env_probe ex_score_moved ex_note)
        (placeAbove (fingering (stateAtPlacement ex_env_probe ex_score_moved ex_note)))
        (systemRect (stateAtPlacement ex_env_probe ex_score_moved ex_note) ex_note) 0
       = Inr True
   \<and> ydBelow ex_env_probe (stateAtPlacement ex_env_probe ex_score_moved ex_note) ex_note
        (0.5 * 1) = 5.5
   \<and> layout ex_env_probe ex_score_moved =
       Inr (ex_score_moved\<lparr>fingering := (fingering ex_score_moved)
         \<lparr>ipos := \<lparr>px = 0.5, py = 5.5 + 100\<rparr>,
          bbox := \<lparr>rect_x = 0, rect_y = - 2, rect_w = 1, rect_h = 2\<rparr>,
          offsetChanged := NONE\<rparr>\<rparr>)"
proof -
  let ?s = "stateAtPlacement ex_env_probe ex_score_moved ex_note"
  have h1: "\<not> tabFingeringHidden ex_score_moved"
    by (simp add: tabFingeringHidden_def explicitParent_def ex_score_moved_def ex_score_def
        ex_staff_def Let_def)
  have h2: "autoplace (fingering (baseLayout ex_env_probe ex_score_moved))"
    by (simp add: baseLayout_def state_defs ex_env_probe_def ex_env_def ex_score_moved_def
        ex_score_def ex_fingering_def)
  have h3: "Fingering_note ex_score_moved = Some ex_note"
    by (simp add: Fingering_note_def ex_score_moved_def ex_score_def)
  have h4: "layoutType (fingering (stateAtDispatch ex_env_probe ex_score_moved ex_note)) = CHORD"
    by (simp add: layoutType_def stateAtDispatch_def excludeSelf_def baseLayout_def state_defs
        ex_env_probe_def ex_env_def ex_score_moved_def ex_score_def ex_fingering_def Let_def)
  have h5: "\<not> tight (baseLayout ex_env_probe ex_score_moved) ex_note"
    by (simp add: tight_def baseLayout_def state_defs ex_env_probe_def ex_env_def
        ex_score_moved_def ex_score_def ex_fingering_def Let_def)
  have s: "?s = ex_score_moved\<lparr>fingering := (fingering ex_score_moved)
         \<lparr>ipos := \<lparr>px = 0.5, py = 0\<rparr>,
          bbox := \<lparr>rect_x = 0, rect_y = - 2, rect_w = 1, rect_h = 2\<rparr>,
          autoplace := False\<rparr>\<rparr>"
    by (simp add: ex_defs state_defs layout_defs Let_def)
  have h7: "\<not> placeAbove (fingering ?s)"
    and h8: "offsetChanged (fingering ?s) \<noteq> NONE"
    and md: "minDistance (fingering ?s) * spatium (fingering ?s) = 0.5 * 1"
    and sp: "spatium (fingering ?s) = 1"
    unfolding s
    by (simp_all add: placeAbove_def ex_score_moved_def ex_score_def ex_fingering_def)
  have h9: "staff ex_score_moved = Some ex_staff"
    by (simp add: ex_score_moved_def ex_score_def)
  have rb: "rebaseAtDispatch ex_env_probe ex_score_moved ex_note = 0"
    by (simp add: rebaseAtDispatch_def excludeSelf_def call_rebaseOffset_def ex_env_probe_def
        ex_env_def Let_def)
  have r: "rect_top (systemRect ?s ex_note) = - 1"
    unfolding s by (simp add: ex_defs geometry_defs systemRect_def pos_def Let_def)
  have sh: "staff_height ex_staff = 4"
    by (simp add: ex_staff_def)
  have y: "ydBelow ex_env_probe ?s ex_note (0.5 * 1) = 5.5"
    unfolding s by (simp add: ex_defs geometry_defs layout_defs Let_def)
  note c = C8_inStaff_below [OF h1 h2 h3 h4 h5 refl h7 h8 h9 refl refl refl,
      unfolded md, unfolded rb r sh y, unfolded sp]
  from c have i: "inStaff ?s (placeAbove (fingering ?s)) (systemRect ?s ex_note) 0 = Inr True"
    by simp
  from c [THEN conjunct2, unfolded s] have "layout ex_env_probe ex_score_moved =
       Inr (ex_score_moved\<lparr>fingering := (fingering ex_score_moved)
         \<lparr>ipos := \<lparr>px = 0.5, py = 5.5 + 100\<rparr>,
          bbox := \<lparr>rect_x = 0, rect_y = - 2, rect_w = 1, rect_h = 2\<rparr>,
          offsetChanged := NONE\<rparr>\<rparr>)"
    by (simp add: call_rebaseMinDistance_def rypos_add_def setAutoplace_def
        setOffsetChanged_def ex_env_probe_def ex_env_def ex_score_moved_def ex_score_def
        ex_fingering_def)
  with h1 h2 h3 h4 h5 h7 h8 h9 rb r sh i y show ?thesis by simp
qed

subsection \<open>Idempotence\<close>




end
